theory Spec2Isabelle
  imports Complex_Main "HOL-Library.Multiset"
begin

section \<open>The Kandinsky painter sketch (Sketch.js)\<close>

text \<open>
  A shallow embedding of \<^verbatim>\<open>src/Sketch.js\<close>: a single-file canvas animation with a
  scene of shapes, strokes and groups, a self re-arming frame callback and a small
  pause/resume/toggle/destroy API.

  Conventions of the embedding.
  \<^item> A JavaScript number is an IEEE double. The finite doubles are idealised as
    \<^typ>\<open>real\<close> (no rounding, no overflow); \<open>NaN\<close> and \<open>undefined\<close> are kept as values of
    \<open>jsval\<close> where the source tests for them (the \<^verbatim>\<open>||\<close> guards) or produces them (a
    read of a property that the record does not have). The only divisions of the
    source are by \<^verbatim>\<open>height\<close>, which \<^verbatim>\<open>resize()\<close> keeps at 200 or more, by the numbers of
    segments and of children, which are at least 3 and 5, and by constants.
  \<^item> A JavaScript string is modelled as \<^typ>\<open>string\<close>; the two agree on ASCII text,
    which is all the source uses.
  \<^item> Calls on the 2D context are not executed but recorded: every routine returns the
    list of context calls it makes, in program order, next to the updated record.
  \<^item> \<^verbatim>\<open>Math.random()\<close> is a parameter \<open>rnd\<close>, the sequence of its future results;
    a counter says how many have been consumed.
\<close>

subsection \<open>JavaScript values\<close>

datatype jsval = Undefined | NaN | Num real

text \<open>The binary \<^verbatim>\<open>+\<close> on operands that are numbers or \<^verbatim>\<open>undefined\<close>:
  \<^verbatim>\<open>undefined\<close> converts to \<open>NaN\<close>, and \<open>NaN\<close> absorbs.\<close>

fun js_plus :: "jsval \<Rightarrow> jsval \<Rightarrow> jsval" where
  "js_plus (Num a) (Num b) = Num (a + b)"
| "js_plus _ _ = NaN"

text \<open>\<^verbatim>\<open>v || d\<close> with a finite number \<open>d\<close> on the right: the left operand when it is
  truthy (a number other than \<open>0\<close> and \<open>NaN\<close>), \<open>d\<close> otherwise. The result is always a
  finite number.\<close>

fun js_or :: "jsval \<Rightarrow> real \<Rightarrow> real" where
  "js_or (Num a) d = (if a \<noteq> 0 then a else d)"
| "js_or NaN d = d"
| "js_or Undefined d = d"

subsection \<open>Helpers: \<^verbatim>\<open>hexToRgba\<close>\<close>

definition hexDigit :: "char \<Rightarrow> nat option" where
  "hexDigit c =
     (let n = (of_char c :: nat) in
      if 48 \<le> n \<and> n \<le> 57 then Some (n - 48)
      else if 97 \<le> n \<and> n \<le> 102 then Some (n - 87)
      else if 65 \<le> n \<and> n \<le> 70 then Some (n - 55)
      else None)"

definition isHexDigit :: "char \<Rightarrow> bool" where
  "isHexDigit c = (hexDigit c \<noteq> None)"

definition isWhiteSpace :: "char \<Rightarrow> bool" where
  "isWhiteSpace c = ((of_char c :: nat) \<in> {9, 10, 11, 12, 13, 32})"

definition hexValue :: "string \<Rightarrow> nat" where
  "hexValue ds = foldl (\<lambda>acc c. 16 * acc + the (hexDigit c)) 0 ds"

text \<open>\<^verbatim>\<open>parseInt(s, 16)\<close>: leading white space is skipped, then an optional sign,
  then an optional \<^verbatim>\<open>0x\<close> or \<^verbatim>\<open>0X\<close>, then the longest run of hexadecimal digits is
  read. No digit at all gives \<open>NaN\<close>, here \<open>None\<close>. (Only the ASCII white space is
  modelled, and \<open>-0\<close> is not told apart from \<open>0\<close>.)\<close>

definition parseInt16 :: "string \<Rightarrow> int option" where
  "parseInt16 s =
     (let s1 = dropWhile isWhiteSpace s;
          sign = (if s1 \<noteq> [] \<and> hd s1 = CHR ''-'' then - 1 else (1 :: int));
          s2 = (if s1 \<noteq> [] \<and> (hd s1 = CHR ''+'' \<or> hd s1 = CHR ''-'') then tl s1 else s1);
          s3 = (if take 2 s2 = ''0x'' \<or> take 2 s2 = ''0X'' then drop 2 s2 else s2);
          z = takeWhile isHexDigit s3
      in if z = [] then None else Some (sign * int (hexValue z)))"

text \<open>
  A CSS colour handed to the context: a hexadecimal token as it stands, or the value of
  the template string \<^verbatim>\<open>rgba(${r},${g},${b},${alpha})\<close>, which is represented by the
  four numbers printed into it (\<open>None\<close> for a channel that is \<open>NaN\<close>).
\<close>

datatype css_color =
    Hex string
  | Rgba "int option" "int option" "int option" real

text \<open>
  \<^verbatim>\<open>hexToRgba(hex, alpha)\<close>. \<^verbatim>\<open>hex.replace('#', '')\<close> removes the first \<^verbatim>\<open>#\<close> of the
  string, wherever it is; \<^verbatim>\<open>h[i]\<close> is read only when \<open>h\<close> has three characters;
  \<^verbatim>\<open>h.slice(a, b)\<close> clips to the string.
\<close>

definition hexToRgba :: "string \<Rightarrow> real \<Rightarrow> css_color" where
  "hexToRgba hex alpha =
     (let h = remove1 (CHR ''#'') hex in
      if length h = 3 then
        (let r = parseInt16 [h ! 0, h ! 0];
             g = parseInt16 [h ! 1, h ! 1];
             b = parseInt16 [h ! 2, h ! 2]
         in Rgba r g b alpha)
      else
        (let r = parseInt16 (take 2 h);
             g = parseInt16 (take 2 (drop 2 h));
             b = parseInt16 (take 2 (drop 4 h))
         in Rgba r g b alpha))"

subsection \<open>Scene records\<close>

text \<open>
  The scene objects are plain JavaScript objects tagged by a \<^verbatim>\<open>type\<close> string. Every
  generator is called without overrides, so a record has exactly the fields that its
  generator writes; the tag becomes the constructor of \<open>shape\<close>. \<^verbatim>\<open>null\<close> is \<open>None\<close>.
\<close>

record circle =
  c_x :: real
  c_y :: real
  c_r :: real
  c_fill :: string
  c_stroke :: "string option"
  c_strokeWidth :: real
  c_vx :: real
  c_vy :: real
  c_wobble :: real
  c_phase :: real

record triangle =
  t_x :: real
  t_y :: real
  t_size :: real
  t_rotation :: real
  t_rotationSpeed :: real
  t_fill :: string
  t_stroke :: "string option"
  t_strokeWidth :: real
  t_skew :: real

record rect =
  r_x :: real
  r_y :: real
  r_w :: real
  r_h :: real
  r_rotation :: real
  r_rotationSpeed :: real
  r_fill :: string
  r_stroke :: "string option"
  r_strokeWidth :: real

datatype shape = Circle circle | Triangle triangle | Rect rect

record point =
  p_x :: real
  p_y :: real

record stroke =
  s_points :: "point list"
  s_color :: string
  s_width :: real
  s_drift :: real
  s_phase :: real

datatype kind = KCircle | KRect | KTriangle

record child =
  k_kind :: kind
  k_x :: real
  k_y :: real
  k_r :: real
  k_w :: real
  k_h :: real
  k_fill :: string
  k_stroke :: "string option"
  k_strokeWidth :: real

record group =
  g_x :: real
  g_y :: real
  g_rotation :: real
  g_speed :: real
  g_scale :: real
  g_children :: "child list"

text \<open>Property reads on a shape of any variant: \<^verbatim>\<open>s.x\<close>, \<^verbatim>\<open>s.y\<close> exist on all three,
  \<^verbatim>\<open>s.phase\<close> only on circles; reading a missing property gives \<^verbatim>\<open>undefined\<close>.\<close>

fun shape_x :: "shape \<Rightarrow> real" where
  "shape_x (Circle s) = c_x s"
| "shape_x (Triangle s) = t_x s"
| "shape_x (Rect s) = r_x s"

fun shape_y :: "shape \<Rightarrow> real" where
  "shape_y (Circle s) = c_y s"
| "shape_y (Triangle s) = t_y s"
| "shape_y (Rect s) = r_y s"

fun shape_phase :: "shape \<Rightarrow> jsval" where
  "shape_phase (Circle s) = Num (c_phase s)"
| "shape_phase (Triangle s) = Undefined"
| "shape_phase (Rect s) = Undefined"

subsection \<open>Context calls\<close>

text \<open>A fill style is a colour or a gradient; the gradient object is recorded
  with its end points and its colour stops when it is assigned to \<^verbatim>\<open>fillStyle\<close>.\<close>

datatype paint =
    Color css_color
  | LinearGradient real real real real "(real \<times> css_color) list"
  | RadialGradient real real real real real real "(real \<times> css_color) list"

datatype cmd =
    Save
  | Restore
  | Translate real real
  | Rotate real
  | Scale real real
  | SetTransform real real real real real real
  | BeginPath
  | ClosePath
  | MoveTo real real
  | LineTo real real
  | QuadraticCurveTo real real real real
  | Arc real real real real real
  | RectPath real real real real
  | Fill
  | Stroke
  | FillRect real real real real
  | StrokeRect real real real real
  | ClearRect real real real real
  | FillStyle paint
  | StrokeStyle css_color
  | LineWidth real
  | GlobalAlpha real
  | GlobalCompositeOperation string
  | LineJoin string
  | LineCap string

datatype error = TypeError

definition TAU :: real where
  "TAU = pi * 2"

subsection \<open>Render helpers\<close>

definition drawCircle :: "real \<Rightarrow> real \<Rightarrow> circle \<Rightarrow> real \<Rightarrow> circle \<times> cmd list" where
  "drawCircle width height s0 t =
     (let wobble = sin (c_phase s0 + t * c_wobble s0) * 0.08;
          s = s0\<lparr>c_x := c_x s0 + c_vx s0\<rparr>;
          s = s\<lparr>c_y := c_y s + c_vy s\<rparr>;
          s = (if c_x s < - c_r s then s\<lparr>c_x := width + c_r s\<rparr> else s);
          s = (if c_x s > width + c_r s then s\<lparr>c_x := - c_r s\<rparr> else s);
          s = (if c_y s < - c_r s then s\<lparr>c_y := height + c_r s\<rparr> else s);
          s = (if c_y s > height + c_r s then s\<lparr>c_y := - c_r s\<rparr> else s);
          rad = c_r s * (1 + 0.06 * sin (t * 0.9 + c_phase s));
          grad = RadialGradient 0 0 (rad * 0.1) 0 0 (rad * 1.1)
                   [(0, Hex (c_fill s)), (1, hexToRgba (c_fill s) 0.05)]
      in (s,
          [Save,
           Translate (c_x s) (c_y s),
           GlobalCompositeOperation ''lighter'',
           FillStyle grad,
           BeginPath,
           Arc 0 0 rad 0 TAU,
           Fill,
           GlobalCompositeOperation ''source-over'',
           BeginPath,
           FillStyle (Color (Hex (c_fill s))),
           Arc 0 0 (rad * 0.6 * (1 + wobble * 0.6)) 0 TAU,
           Fill]
          @ (if c_strokeWidth s > 0
             then [LineWidth (c_strokeWidth s),
                   StrokeStyle (hexToRgba ''#000000'' 0.12),
                   Stroke]
             else [])
          @ [Restore]))"

text \<open>The optional outline shared by triangles, rects and group children:
  \<^verbatim>\<open>if (s.stroke) { lineWidth = s.strokeWidth; strokeStyle = s.stroke; ... }\<close>,
  the last call being \<open>final\<close>. \<^verbatim>\<open>null\<close> and the empty string are falsy.\<close>

definition outline :: "string option \<Rightarrow> real \<Rightarrow> cmd \<Rightarrow> cmd list" where
  "outline st w final =
     (case st of
        None \<Rightarrow> []
      | Some col \<Rightarrow> (if col = [] then [] else [LineWidth w, StrokeStyle (Hex col), final]))"

definition drawTriangle :: "triangle \<Rightarrow> real \<Rightarrow> triangle \<times> cmd list" where
  "drawTriangle s0 t =
     (let s = s0\<lparr>t_rotation := js_or (Num (t_rotation s0)) 0 + t_rotationSpeed s0\<rparr>;
          size = t_size s;
          skew = js_or (Num (t_skew s)) 0;
          g = LinearGradient (- size) (- size) size size
                [(0, Hex (t_fill s)), (1, hexToRgba (t_fill s) 0.6)]
      in (s,
          [Save,
           Translate (t_x s) (t_y s),
           Rotate (t_rotation s),
           BeginPath,
           MoveTo 0 (- size * 0.6),
           LineTo (size * 0.6 + skew * size) (size * 0.4),
           LineTo (- size * 0.6 + skew * size) (size * 0.4),
           ClosePath,
           FillStyle g,
           Fill]
          @ outline (t_stroke s) (t_strokeWidth s) Stroke
          @ [Restore]))"

definition drawRect :: "rect \<Rightarrow> real \<Rightarrow> rect \<times> cmd list" where
  "drawRect s0 t =
     (let s = s0\<lparr>r_rotation := js_or (Num (r_rotation s0)) 0 + r_rotationSpeed s0\<rparr>;
          g = LinearGradient (- r_w s / 2) (- r_h s / 2) (r_w s / 2) (r_h s / 2)
                [(0, Hex (r_fill s)), (1, hexToRgba (r_fill s) 0.6)]
      in (s,
          [Save,
           Translate (r_x s) (r_y s),
           Rotate (r_rotation s),
           BeginPath,
           RectPath (- r_w s / 2) (- r_h s / 2) (r_w s) (r_h s),
           FillStyle g,
           Fill]
          @ outline (r_stroke s) (r_strokeWidth s) Stroke
          @ [Restore]))"

text \<open>
  \<^verbatim>\<open>drawStroke\<close> reads \<^verbatim>\<open>pts[0].x\<close>: on an empty point array this is a property read
  on \<^verbatim>\<open>undefined\<close>, a \<open>TypeError\<close> raised after the first four context calls. The
  result carries the calls made and the error, if any.
\<close>

definition drawStroke :: "stroke \<Rightarrow> real \<Rightarrow> cmd list \<times> error option" where
  "drawStroke st t =
     (let pts = s_points st;
          dx = sin (t * s_drift st + s_phase st) * 6;
          dy = cos (t * s_drift st + s_phase st) * 6
      in case pts of
           [] \<Rightarrow> ([Save, LineJoin ''round'', LineCap ''round'', BeginPath], Some TypeError)
         | p0 # rest \<Rightarrow>
             ([Save, LineJoin ''round'', LineCap ''round'', BeginPath,
               MoveTo (p_x p0 + dx) (p_y p0 + dy)]
              @ map (\<lambda>p. QuadraticCurveTo (p_x p - 10 + dx) (p_y p - 10 + dy)
                                            (p_x p + dx) (p_y p + dy)) rest
              @ [StrokeStyle (Hex (s_color st)), LineWidth (s_width st), GlobalAlpha 0.9,
                 Stroke, Restore],
              None))"

text \<open>The body of the loop over \<^verbatim>\<open>g.children\<close>. It assigns to no field of the child.\<close>

definition drawChild :: "real \<Rightarrow> child \<Rightarrow> cmd list" where
  "drawChild t c =
     [Save, Translate (k_x c) (k_y c)]
     @ (case k_kind c of
          KCircle \<Rightarrow>
            (let r = k_r c * (1 + 0.08 * sin (t * 0.9 + (k_x c + k_y c) * 0.01))
             in [BeginPath, FillStyle (Color (Hex (k_fill c))), Arc 0 0 r 0 TAU, Fill]
                @ outline (k_stroke c) (k_strokeWidth c) Stroke)
        | KRect \<Rightarrow>
            [FillStyle (Color (Hex (k_fill c))),
             FillRect (- k_w c / 2) (- k_h c / 2) (k_w c) (k_h c)]
            @ outline (k_stroke c) (k_strokeWidth c)
                (StrokeRect (- k_w c / 2) (- k_h c / 2) (k_w c) (k_h c))
        | KTriangle \<Rightarrow>
            [BeginPath,
             MoveTo 0 (- k_r c),
             LineTo (k_r c) (k_r c),
             LineTo (- k_r c) (k_r c),
             ClosePath,
             FillStyle (Color (Hex (k_fill c))),
             Fill]
            @ outline (k_stroke c) (k_strokeWidth c) Stroke)
     @ [Restore]"

definition drawGroup :: "group \<Rightarrow> real \<Rightarrow> group \<times> cmd list" where
  "drawGroup g0 t =
     (let g = g0\<lparr>g_rotation := g_rotation g0 + g_speed g0\<rparr>
      in (g,
          [Save,
           Translate (g_x g) (g_y g),
           Rotate (g_rotation g + sin (t * 0.2) * 0.03),
           Scale (g_scale g) (g_scale g)]
          @ concat (map (drawChild t) (g_children g))
          @ [Restore]))"

subsection \<open>Palette and generators\<close>

definition PALETTE :: "string list" where
  "PALETTE =
     [''#F23B5A'', ''#FFC857'', ''#8BD3DD'', ''#3A7CA5'',
      ''#6F2DA8'', ''#FFFFFF'', ''#000000'', ''#FF7AB6'']"

text \<open>
  \<^verbatim>\<open>rand(a, b)\<close> consumes one result of \<^verbatim>\<open>Math.random()\<close>: \<open>rnd n\<close> is the result of
  the \<open>n\<close>-th call, a number in \<open>[0, 1)\<close>, and the counter is passed on.
\<close>

definition random_ok :: "(nat \<Rightarrow> real) \<Rightarrow> bool" where
  "random_ok rnd = (\<forall>n. 0 \<le> rnd n \<and> rnd n < 1)"

definition rand :: "(nat \<Rightarrow> real) \<Rightarrow> real \<Rightarrow> real \<Rightarrow> nat \<Rightarrow> real \<times> nat" where
  "rand rnd a b n = (a + rnd n * (b - a), Suc n)"

text \<open>\<^verbatim>\<open>PALETTE[Math.floor(rand(0, PALETTE.length))]\<close>; the index is in range for
  every result of \<^verbatim>\<open>Math.random()\<close> (lemma \<open>palette_index\<close> below).\<close>

definition pickColor :: "(nat \<Rightarrow> real) \<Rightarrow> nat \<Rightarrow> string \<times> nat" where
  "pickColor rnd n =
     (let (v, n) = rand rnd 0 (of_nat (length PALETTE)) n
      in (PALETTE ! nat \<lfloor>v\<rfloor>, n))"

definition makeCircle :: "(nat \<Rightarrow> real) \<Rightarrow> real \<Rightarrow> real \<Rightarrow> nat \<Rightarrow> circle \<times> nat" where
  "makeCircle rnd width height n =
     (let (x, n) = rand rnd (0.1 * width) (0.9 * width) n;
          (y, n) = rand rnd (0.12 * height) (0.88 * height) n;
          (r, n) = rand rnd 18 120 n;
          (fill, n) = pickColor rnd n;
          (strokeWidth, n) = rand rnd 0 6 n;
          (vx, n) = rand rnd (- 6) 6 n;
          (vy, n) = rand rnd (- 6) 6 n;
          (wobble, n) = rand rnd 0.2 1.2 n;
          (phase, n) = rand rnd 0 TAU n
      in (\<lparr>c_x = x, c_y = y, c_r = r, c_fill = fill, c_stroke = None,
            c_strokeWidth = strokeWidth, c_vx = vx / 200, c_vy = vy / 200,
            c_wobble = wobble, c_phase = phase\<rparr>, n))"

definition makeTriangle :: "(nat \<Rightarrow> real) \<Rightarrow> real \<Rightarrow> real \<Rightarrow> nat \<Rightarrow> triangle \<times> nat" where
  "makeTriangle rnd width height n =
     (let (x, n) = rand rnd (0.12 * width) (0.88 * width) n;
          (y, n) = rand rnd (0.12 * height) (0.88 * height) n;
          (size, n) = rand rnd 40 220 n;
          (rotation, n) = rand rnd 0 TAU n;
          (rotationSpeed, n) = rand rnd (- 0.01) 0.01 n;
          (fill, n) = pickColor rnd n;
          (strokeWidth, n) = rand rnd 1 4 n;
          (skew, n) = rand rnd (- 0.3) 0.3 n
      in (\<lparr>t_x = x, t_y = y, t_size = size, t_rotation = rotation,
            t_rotationSpeed = rotationSpeed, t_fill = fill, t_stroke = Some ''#000000'',
            t_strokeWidth = strokeWidth, t_skew = skew\<rparr>, n))"

definition makeRect :: "(nat \<Rightarrow> real) \<Rightarrow> real \<Rightarrow> real \<Rightarrow> nat \<Rightarrow> rect \<times> nat" where
  "makeRect rnd width height n =
     (let (x, n) = rand rnd (0.05 * width) (0.95 * width) n;
          (y, n) = rand rnd (0.05 * height) (0.95 * height) n;
          (w, n) = rand rnd 30 240 n;
          (h, n) = rand rnd 20 160 n;
          (rotation, n) = rand rnd 0 TAU n;
          (rotationSpeed, n) = rand rnd (- 0.008) 0.008 n;
          (fill, n) = pickColor rnd n;
          (strokeWidth, n) = rand rnd 1 4 n
      in (\<lparr>r_x = x, r_y = y, r_w = w, r_h = h, r_rotation = rotation,
            r_rotationSpeed = rotationSpeed, r_fill = fill, r_stroke = Some ''#000000'',
            r_strokeWidth = strokeWidth\<rparr>, n))"

text \<open>The loop of \<^verbatim>\<open>buildWavyLine\<close>, \<^verbatim>\<open>for (let i = 0; i < segs + 1; i++)\<close>, from a
  given \<open>i\<close> on; it returns the points pushed from there.\<close>

function wavyLoop ::
  "(nat \<Rightarrow> real) \<Rightarrow> real \<Rightarrow> real \<Rightarrow> real \<Rightarrow> real \<Rightarrow> int \<Rightarrow> int \<Rightarrow> nat \<Rightarrow> point list \<times> nat" where
  "wavyLoop rnd cx cy angle len segs i n =
     (if i < segs + 1 then
        (let t = of_int i / of_int segs;
             (jx, n1) = rand rnd (- 40) 40 n;
             (jy, n2) = rand rnd (- 40) 40 n1;
             p = \<lparr>p_x = cx + cos angle * (t - 0.5) * len + jx,
                  p_y = cy + sin angle * (t - 0.5) * len + jy\<rparr>;
             (ps, n3) = wavyLoop rnd cx cy angle len segs (i + 1) n2
         in (p # ps, n3))
      else ([], n))"
  by pat_completeness auto
termination
  by (relation "measure (\<lambda>(rnd, cx, cy, angle, len, segs, i, n). nat (segs + 1 - i))") auto

declare wavyLoop.simps [simp del]

definition buildWavyLine ::
  "(nat \<Rightarrow> real) \<Rightarrow> real \<Rightarrow> real \<Rightarrow> real \<Rightarrow> real \<Rightarrow> real \<Rightarrow> nat \<Rightarrow> point list \<times> nat" where
  "buildWavyLine rnd width height cx cy scale n =
     (let (v, n) = rand rnd 3 8 n;
          segs = \<lfloor>v\<rfloor>;
          (l, n) = rand rnd 120 (min width height * 0.8) n;
          len = l * scale;
          (angle, n) = rand rnd 0 TAU n
      in wavyLoop rnd cx cy angle len segs 0 n)"

definition makeStroke :: "(nat \<Rightarrow> real) \<Rightarrow> real \<Rightarrow> real \<Rightarrow> nat \<Rightarrow> stroke \<times> nat" where
  "makeStroke rnd width height n =
     (let (cx, n) = rand rnd 100 (width - 100) n;
          (cy, n) = rand rnd 100 (height - 100) n;
          (scale, n) = rand rnd 0.3 1.5 n;
          (points, n) = buildWavyLine rnd width height cx cy scale n;
          (color, n) = pickColor rnd n;
          (w, n) = rand rnd 1.2 6 n;
          (drift, n) = rand rnd 0.001 0.006 n;
          (phase, n) = rand rnd 0 TAU n
      in (\<lparr>s_points = points, s_color = color, s_width = w, s_drift = drift,
            s_phase = phase\<rparr>, n))"

text \<open>One child of a group, for the loop index \<open>i\<close> of \<^verbatim>\<open>makeGroup\<close>.\<close>

definition makeChild :: "(nat \<Rightarrow> real) \<Rightarrow> real \<Rightarrow> real \<Rightarrow> int \<Rightarrow> nat \<Rightarrow> child \<times> nat" where
  "makeChild rnd scale count' i n =
     (let (da, n) = rand rnd (- 0.2) 0.2 n;
          ang = (of_int i / count') * TAU + da;
          (d, n) = rand rnd 30 140 n;
          dist = d * scale;
          (kind, n) = (if rnd n > 0.5 then (KCircle, Suc n)
                       else if rnd (Suc n) > 0.5 then (KRect, Suc (Suc n))
                       else (KTriangle, Suc (Suc n)));
          (r, n) = rand rnd 8 48 n;
          (w, n) = rand rnd 18 80 n;
          (h, n) = rand rnd 12 60 n;
          (fill, n) = pickColor rnd n;
          (stroke, n) = (if rnd n > 0.6 then (Some ''#000'', Suc n) else (None, Suc n));
          (strokeWidth, n) = rand rnd 0.5 3 n
      in (\<lparr>k_kind = kind, k_x = cos ang * dist, k_y = sin ang * dist,
            k_r = r * scale, k_w = w * scale, k_h = h * scale, k_fill = fill,
            k_stroke = stroke, k_strokeWidth = strokeWidth\<rparr>, n))"

text \<open>\<^verbatim>\<open>for (let i = 0; i < count; i++)\<close>: \<open>count\<close> (here \<open>count'\<close>) is a real number,
  since the groups are made with \<^verbatim>\<open>makeGroup(rand(5, 10))\<close>.\<close>

function childLoop :: "(nat \<Rightarrow> real) \<Rightarrow> real \<Rightarrow> real \<Rightarrow> int \<Rightarrow> nat \<Rightarrow> child list \<times> nat" where
  "childLoop rnd scale count' i n =
     (if of_int i < count' then
        (let (c, n1) = makeChild rnd scale count' i n;
             (cs, n2) = childLoop rnd scale count' (i + 1) n1
         in (c # cs, n2))
      else ([], n))"
  by pat_completeness auto
termination
  by (relation "measure (\<lambda>(rnd, scale, count', i, n). nat (\<lceil>count'\<rceil> - i))")
     (auto simp: less_ceiling_iff)

declare childLoop.simps [simp del]

definition makeGroup ::
  "(nat \<Rightarrow> real) \<Rightarrow> real \<Rightarrow> real \<Rightarrow> real \<Rightarrow> real option \<Rightarrow> real option \<Rightarrow> nat \<Rightarrow> group \<times> nat" where
  "makeGroup rnd width height count' cx cy n =
     (let (centerX, n) = (case cx of Some v \<Rightarrow> (v, n)
                          | None \<Rightarrow> rand rnd (width * 0.2) (width * 0.8) n);
          (centerY, n) = (case cy of Some v \<Rightarrow> (v, n)
                          | None \<Rightarrow> rand rnd (height * 0.2) (height * 0.8) n);
          (rotation, n) = rand rnd 0 TAU n;
          (speed, n) = rand rnd (- 0.003) 0.003 n;
          (scale, n) = rand rnd 0.6 1.4 n;
          (children, n) = childLoop rnd scale count' 0 n
      in (\<lparr>g_x = centerX, g_y = centerY, g_rotation = rotation, g_speed = speed,
            g_scale = scale, g_children = children\<rparr>, n))"

subsection \<open>Background\<close>

definition hatchStep :: "real \<Rightarrow> real \<Rightarrow> real" where
  "hatchStep width height = max 20 (min 60 (of_int \<lfloor>(width + height) / 60\<rfloor>))"

text \<open>The loop \<^verbatim>\<open>for (let x = -height; x < width; x += step)\<close>, from a given \<open>x\<close> on.\<close>

function hatchLines :: "real \<Rightarrow> real \<Rightarrow> real \<Rightarrow> cmd list" where
  "hatchLines x width height =
     (if x < width
      then [BeginPath, MoveTo x 0, LineTo (x + height) height, Stroke]
           @ hatchLines (x + hatchStep width height) width height
      else [])"
  by pat_completeness auto
termination
proof (relation "measure (\<lambda>(x, width, height). nat \<lceil>width - x\<rceil>)")
  show "wf (measure (\<lambda>(x, width, height). nat \<lceil>width - x\<rceil>))"
    by simp
next
  fix x width height :: real
  assume lt: "x < width"
  have "20 \<le> hatchStep width height"
    by (simp add: hatchStep_def)
  then have "width - (x + hatchStep width height) \<le> (width - x) - 1"
    by simp
  then have "\<lceil>width - (x + hatchStep width height)\<rceil> \<le> \<lceil>(width - x) - 1\<rceil>"
    by (rule ceiling_mono)
  moreover have "\<lceil>(width - x) - 1\<rceil> = \<lceil>width - x\<rceil> - 1"
    by simp
  moreover have "0 < \<lceil>width - x\<rceil>"
    using lt by simp
  ultimately show "((x + hatchStep width height, width, height), (x, width, height))
      \<in> measure (\<lambda>(x, width, height). nat \<lceil>width - x\<rceil>)"
    by simp
qed

declare hatchLines.simps [simp del]

definition drawBackgroundTexture :: "real \<Rightarrow> real \<Rightarrow> cmd list" where
  "drawBackgroundTexture width height =
     [FillStyle (LinearGradient 0 0 width height [(0, Hex ''#FFF9F2''), (1, Hex ''#F0F7FF'')]),
      FillRect 0 0 width height]
     @ [Save, GlobalAlpha 0.04, StrokeStyle (Hex ''#000''), LineWidth 1]
     @ hatchLines (- height) width height
     @ [Restore]"

subsection \<open>The loops of a frame\<close>

text \<open>\<^verbatim>\<open>for (const g of groups) drawGroup(g, time)\<close>: the groups are updated in place.\<close>

fun drawGroups :: "group list \<Rightarrow> real \<Rightarrow> group list \<times> cmd list" where
  "drawGroups [] t = ([], [])"
| "drawGroups (g # gs) t =
     (let (g', c) = drawGroup g t;
          (gs', cs) = drawGroups gs t
      in (g' # gs', c @ cs))"

text \<open>\<^verbatim>\<open>for (const s of strokes) drawStroke(s, time)\<close>: an exception ends the loop.\<close>

fun drawStrokes :: "stroke list \<Rightarrow> real \<Rightarrow> cmd list \<times> error option" where
  "drawStrokes [] t = ([], None)"
| "drawStrokes (s # ss) t =
     (case drawStroke s t of
        (c, Some e) \<Rightarrow> (c, Some e)
      | (c, None) \<Rightarrow> (let (cs, e) = drawStrokes ss t in (c @ cs, e)))"

text \<open>\<^verbatim>\<open>shapes.sort((a, b) => (a.y || 0) - (b.y || 0))\<close>: a sort ascending in the key
  \<^verbatim>\<open>y || 0\<close>, stable as ECMAScript 2019 requires. It runs before the loop that moves
  the shapes of this frame.\<close>

definition sortShapes :: "shape list \<Rightarrow> shape list" where
  "sortShapes ss = sort_key (\<lambda>s. js_or (Num (shape_y s)) 0) ss"

text \<open>The body of the loop over the sorted shapes.\<close>

fun shapeStep :: "real \<Rightarrow> real \<Rightarrow> real \<Rightarrow> shape \<Rightarrow> shape \<times> cmd list" where
  "shapeStep width height time (Circle s0) =
     (let par = 1 + ((c_y s0 / height) - 0.5) * 0.08;
          s = s0\<lparr>c_x := c_x s0 + sin (time * 0.2 + (c_x s0 + c_y s0) * 0.001) * 0.02 * par\<rparr>;
          s = s\<lparr>c_y := c_y s + cos (time * 0.14 + (c_x s - c_y s) * 0.001) * 0.02 * par\<rparr>;
          (s, c) = drawCircle width height s time
      in (Circle s, c))"
| "shapeStep width height time (Triangle s0) =
     (let par = 1 + ((t_y s0 / height) - 0.5) * 0.08;
          s = s0\<lparr>t_x := t_x s0
                 + sin (js_or (js_plus (Num (time * 0.18)) (shape_phase (Triangle s0))) 0)
                   * 0.01 * par\<rparr>;
          (s, c) = drawTriangle s time
      in (Triangle s, c))"
| "shapeStep width height time (Rect s0) =
     (let par = 1 + ((r_y s0 / height) - 0.5) * 0.08;
          (s, c) = drawRect s0 time
      in (Rect s, c))"

fun drawShapes :: "real \<Rightarrow> real \<Rightarrow> real \<Rightarrow> shape list \<Rightarrow> shape list \<times> cmd list" where
  "drawShapes width height time [] = ([], [])"
| "drawShapes width height time (s # ss) =
     (let (s', c) = shapeStep width height time s;
          (ss', cs) = drawShapes width height time ss
      in (s' # ss', c @ cs))"

definition ringCmds :: "real \<Rightarrow> real \<Rightarrow> real \<Rightarrow> cmd list" where
  "ringCmds width height time =
     [Save,
      GlobalAlpha 0.12,
      Translate (width * 0.5) (height * 0.45),
      Rotate (sin (time * 0.1) * 0.4),
      BeginPath,
      Arc 0 0 (min width height * 0.28) 0 TAU,
      LineWidth (min width height * 0.1),
      StrokeStyle (Hex ''#FFC857''),
      Stroke,
      Restore]"

definition accentCmds :: "real \<Rightarrow> real \<Rightarrow> real \<Rightarrow> cmd list" where
  "accentCmds width height time =
     [Save,
      GlobalAlpha 0.95,
      Translate (width * 0.85) (height * 0.18),
      Rotate (sin (time * 0.6) * 0.6),
      BeginPath,
      FillStyle (Color (Hex ''#000'')),
      Arc 0 0 22 0 TAU,
      Fill,
      BeginPath,
      FillStyle (Color (Hex ''#fff'')),
      Arc (- 6) (- 6) 6 0 TAU,
      Fill,
      Restore]"

definition signatureCmds :: "real \<Rightarrow> real \<Rightarrow> real \<Rightarrow> cmd list" where
  "signatureCmds width height time =
     [Save,
      Translate (width * 0.06) (height * 0.92),
      Rotate (- 0.12 + sin (time * 0.4) * 0.02),
      GlobalAlpha 0.9,
      FillStyle (Color (Hex ''#3A7CA5'')),
      FillRect 0 0 10 36,
      BeginPath,
      MoveTo 8 18,
      LineTo 34 0,
      LineTo 34 6,
      LineTo 12 22,
      LineTo 34 36,
      LineTo 34 42,
      ClosePath,
      Fill,
      Restore]"

subsection \<open>The animation state\<close>

text \<open>
  The module's variables. \<open>rafPending\<close> counts the \<^verbatim>\<open>requestAnimationFrame(frame)\<close>
  requests that the browser has not run yet; \<open>resizeListener\<close>, \<open>canvasAttached\<close> and
  \<open>apiInstalled\<close> say whether the resize listener is registered, the canvas is in the
  document, and \<^verbatim>\<open>window.__kandinskyPainter\<close> exists. \<open>lastNow\<close> is the variable
  \<^verbatim>\<open>last\<close>.
\<close>

record state =
  dpr :: real
  width :: real
  height :: real
  canvasWidth :: int
  canvasHeight :: int
  shapes :: "shape list"
  strokes :: "stroke list"
  groups :: "group list"
  running :: bool
  lastNow :: real
  time :: real
  rafPending :: nat
  resizeListener :: bool
  canvasAttached :: bool
  apiInstalled :: bool

definition requestAnimationFrame :: "state \<Rightarrow> state" where
  "requestAnimationFrame st = st\<lparr>rafPending := Suc (rafPending st)\<rparr>"

text \<open>\<^verbatim>\<open>Math.round\<close> rounds half-way cases up.\<close>

definition js_round :: "real \<Rightarrow> int" where
  "js_round v = \<lfloor>v + 1 / 2\<rfloor>"

text \<open>\<^verbatim>\<open>resize()\<close> with the window's inner size; the CSS size of the canvas is not
  modelled.\<close>

definition resize :: "real \<Rightarrow> real \<Rightarrow> state \<Rightarrow> state \<times> cmd list" where
  "resize innerWidth innerHeight st0 =
     (let st = st0\<lparr>width := max 300 innerWidth\<rparr>;
          st = st\<lparr>height := max 200 innerHeight\<rparr>;
          st = st\<lparr>canvasWidth := js_round (width st * dpr st)\<rparr>;
          st = st\<lparr>canvasHeight := js_round (height st * dpr st)\<rparr>
      in (st, [SetTransform (dpr st) 0 0 (dpr st) 0 0]))"

subsection \<open>The frame callback\<close>

text \<open>
  \<^verbatim>\<open>frame(now)\<close>. The result is the new state, the context calls made and the
  exception that ended the callback, if any (only \<^verbatim>\<open>drawStroke\<close> can raise one; the
  effects up to that point stay, and the callback is not requested again).
\<close>

definition frame :: "real \<Rightarrow> state \<Rightarrow> state \<times> cmd list \<times> error option" where
  "frame now st0 =
     (let dt = min 40 (now - lastNow st0);
          st = st0\<lparr>lastNow := now\<rparr>
      in if \<not> running st then (requestAnimationFrame st, [], None)
         else
          (let st = st\<lparr>time := time st + dt * 0.001\<rparr>;
               c1 = [ClearRect 0 0 (width st) (height st)];
               c2 = drawBackgroundTexture (width st) (height st);
               c3 = ringCmds (width st) (height st) (time st);
               (gs, c4) = drawGroups (groups st) (time st);
               st = st\<lparr>groups := gs\<rparr>;
               (c5, err) = drawStrokes (strokes st) (time st)
           in case err of
                Some e \<Rightarrow> (st, c1 @ c2 @ c3 @ c4 @ c5, Some e)
              | None \<Rightarrow>
                 (let st = st\<lparr>shapes := sortShapes (shapes st)\<rparr>;
                      (ss, c6) = drawShapes (width st) (height st) (time st) (shapes st);
                      st = st\<lparr>shapes := ss\<rparr>;
                      c7 = accentCmds (width st) (height st) (time st);
                      c8 = signatureCmds (width st) (height st) (time st)
                  in (requestAnimationFrame st,
                      c1 @ c2 @ c3 @ c4 @ c5 @ c6 @ c7 @ c8, None))))"

subsection \<open>Public API and events\<close>

definition pause :: "state \<Rightarrow> state" where
  "pause st = st\<lparr>running := False\<rparr>"

text \<open>\<open>now\<close> is the value of \<^verbatim>\<open>performance.now()\<close> at the call.\<close>

definition resume :: "real \<Rightarrow> state \<Rightarrow> state" where
  "resume now st = st\<lparr>running := True, lastNow := now\<rparr>"

definition toggle :: "real \<Rightarrow> state \<Rightarrow> state" where
  "toggle now st = st\<lparr>running := \<not> running st, lastNow := now\<rparr>"

definition destroy :: "state \<Rightarrow> state" where
  "destroy st0 =
     (let st = st0\<lparr>running := False\<rparr>;
          st = st\<lparr>resizeListener := False\<rparr>;
          st = (if canvasAttached st then st\<lparr>canvasAttached := False\<rparr> else st);
          st = st\<lparr>apiInstalled := False\<rparr>
      in st)"

text \<open>
  What the page can do to the sketch: the browser runs the animation frame callbacks
  (\<open>Raf now\<close>) and reports window resizes and clicks on the canvas; a script calls a
  method of the API object, which it may have kept after \<^verbatim>\<open>destroy()\<close>. The click
  handler goes through \<^verbatim>\<open>window.__kandinskyPainter\<close> and raises a \<open>TypeError\<close> when
  that is gone. An exception ends the handler that raised it, nothing else.
\<close>

datatype event =
    Raf real
  | WindowResize real real
  | CanvasClick real
  | ApiPause
  | ApiResume real
  | ApiToggle real
  | ApiDestroy

fun step :: "event \<Rightarrow> state \<Rightarrow> state \<times> cmd list \<times> error option" where
  "step (Raf now) st =
     (if rafPending st = 0 then (st, [], None)
      else frame now (st\<lparr>rafPending := rafPending st - 1\<rparr>))"
| "step (WindowResize iw ih) st =
     (if resizeListener st then (let (st', c) = resize iw ih st in (st', c, None))
      else (st, [], None))"
| "step (CanvasClick now) st =
     (if apiInstalled st then (toggle now st, [], None) else (st, [], Some TypeError))"
| "step ApiPause st = (pause st, [], None)"
| "step (ApiResume now) st = (resume now st, [], None)"
| "step (ApiToggle now) st = (toggle now st, [], None)"
| "step ApiDestroy st = (destroy st, [], None)"

fun run :: "event list \<Rightarrow> state \<Rightarrow> state \<times> cmd list" where
  "run [] st = (st, [])"
| "run (e # es) st =
     (let (st1, c1, err) = step e st;
          (st2, c2) = run es st1
      in (st2, c1 @ c2))"

subsection \<open>Start-up\<close>

text \<open>The population loops, \<^verbatim>\<open>for (let i = 0; i < k; i++) xs.push(gen())\<close>.\<close>

fun repeatMake :: "nat \<Rightarrow> (nat \<Rightarrow> 'a \<times> nat) \<Rightarrow> nat \<Rightarrow> 'a list \<times> nat" where
  "repeatMake 0 gen n = ([], n)"
| "repeatMake (Suc k) gen n =
     (let (x, n1) = gen n;
          (xs, n2) = repeatMake k gen n1
      in (x # xs, n2))"

text \<open>
  The module body: the pixel ratio, the first \<^verbatim>\<open>resize()\<close> (its context call is
  dropped), the scene, the clock and the first \<^verbatim>\<open>requestAnimationFrame(frame)\<close>.
  \<open>devicePixelRatio\<close>, \<open>innerWidth\<close> and \<open>innerHeight\<close> are read from the window,
  \<open>now\<close> is \<^verbatim>\<open>performance.now()\<close>.
\<close>

definition init :: "(nat \<Rightarrow> real) \<Rightarrow> jsval \<Rightarrow> real \<Rightarrow> real \<Rightarrow> real \<Rightarrow> state" where
  "init rnd devicePixelRatio innerWidth innerHeight now =
     (let st = \<lparr>dpr = max 1 (js_or devicePixelRatio 1), width = 0, height = 0,
                canvasWidth = 300, canvasHeight = 150,
                shapes = [], strokes = [], groups = [],
                running = True, lastNow = now, time = 0, rafPending = 0,
                resizeListener = True, canvasAttached = True, apiInstalled = True\<rparr>;
          st = fst (resize innerWidth innerHeight st);
          (cs, n) = repeatMake 9 (\<lambda>n. let (s, n) = makeCircle rnd (width st) (height st) n
                                      in (Circle s, n)) 0;
          (ts, n) = repeatMake 8 (\<lambda>n. let (s, n) = makeTriangle rnd (width st) (height st) n
                                      in (Triangle s, n)) n;
          (rs, n) = repeatMake 6 (\<lambda>n. let (s, n) = makeRect rnd (width st) (height st) n
                                      in (Rect s, n)) n;
          (ss, n) = repeatMake 5 (makeStroke rnd (width st) (height st)) n;
          (gs, n) = repeatMake 3 (\<lambda>n. let (c, n) = rand rnd 5 10 n
                                      in makeGroup rnd (width st) (height st) c None None n) n
      in requestAnimationFrame (st\<lparr>shapes := cs @ ts @ rs, strokes := ss, groups := gs\<rparr>))"

subsection \<open>Notions used in the statements\<close>

text \<open>Every stroke has a first point, as \<^verbatim>\<open>drawStroke\<close> needs.\<close>

definition strokes_ok :: "state \<Rightarrow> bool" where
  "strokes_ok st = (\<forall>s \<in> set (strokes st). s_points s \<noteq> [])"

text \<open>The API calls that set \<^verbatim>\<open>running\<close> back to true.\<close>

fun restarts :: "event \<Rightarrow> bool" where
  "restarts (ApiResume now) = True"
| "restarts (ApiToggle now) = True"
| "restarts (Raf now) = False"
| "restarts (WindowResize iw ih) = False"
| "restarts (CanvasClick now) = False"
| "restarts ApiPause = False"
| "restarts ApiDestroy = False"

text \<open>What \<^verbatim>\<open>destroy()\<close> leaves behind: stopped, no resize listener, no global handle.\<close>

definition destroyed :: "state \<Rightarrow> bool" where
  "destroyed st = (\<not> running st \<and> \<not> resizeListener st \<and> \<not> apiInstalled st)"

text \<open>The positions of the triangles of a shape list, in list order.\<close>

fun trianglePos :: "shape list \<Rightarrow> (real \<times> real) list" where
  "trianglePos [] = []"
| "trianglePos (Triangle s # ss) = (t_x s, t_y s) # trianglePos ss"
| "trianglePos (Circle s # ss) = trianglePos ss"
| "trianglePos (Rect s # ss) = trianglePos ss"

text \<open>The value of \<^verbatim>\<open>time\<close> after \<^verbatim>\<open>time += dt * 0.001\<close> in a frame that runs at \<open>now\<close>.\<close>

definition frameTime :: "real \<Rightarrow> state \<Rightarrow> real" where
  "frameTime now st = time st + min 40 (now - lastNow st) * 0.001"

subsection \<open>A small scene for the examples\<close>

definition sampleCircle :: circle where
  "sampleCircle =
     \<lparr>c_x = 821, c_y = 621, c_r = 20, c_fill = ''#FFC857'', c_stroke = None,
      c_strokeWidth = 3, c_vx = 3 / 200, c_vy = - 3 / 200, c_wobble = 1, c_phase = 0\<rparr>"

definition sampleCircle2 :: circle where
  "sampleCircle2 =
     \<lparr>c_x = - 21, c_y = - 21, c_r = 20, c_fill = ''#FFFFFF'', c_stroke = None,
      c_strokeWidth = 0, c_vx = - 6 / 200, c_vy = 3 / 200, c_wobble = 1 / 2, c_phase = 1\<rparr>"

text \<open>Just outside the padded viewport of an 800 by 600 surface, drifting back in.\<close>

definition edgeCircle :: circle where
  "edgeCircle =
     \<lparr>c_x = 820.01, c_y = 300, c_r = 20, c_fill = ''#FFFFFF'', c_stroke = None,
      c_strokeWidth = 0, c_vx = - 6 / 200, c_vy = 0, c_wobble = 1, c_phase = 0\<rparr>"

definition sampleTriangle :: triangle where
  "sampleTriangle =
     \<lparr>t_x = 100, t_y = 50, t_size = 40, t_rotation = 0, t_rotationSpeed = 1 / 100,
      t_fill = ''#F23B5A'', t_stroke = Some ''#000000'', t_strokeWidth = 1, t_skew = 0\<rparr>"

definition sampleRect :: rect where
  "sampleRect =
     \<lparr>r_x = 200, r_y = 40, r_w = 30, r_h = 20, r_rotation = 0, r_rotationSpeed = 0,
      r_fill = ''#3A7CA5'', r_stroke = Some ''#000000'', r_strokeWidth = 2\<rparr>"

definition sampleStroke :: stroke where
  "sampleStroke =
     \<lparr>s_points = [\<lparr>p_x = 100, p_y = 100\<rparr>, \<lparr>p_x = 150, p_y = 120\<rparr>,
                  \<lparr>p_x = 200, p_y = 90\<rparr>, \<lparr>p_x = 250, p_y = 130\<rparr>],
      s_color = ''#6F2DA8'', s_width = 2, s_drift = 1 / 500, s_phase = 0\<rparr>"

definition sampleChild :: child where
  "sampleChild =
     \<lparr>k_kind = KRect, k_x = 30, k_y = 0, k_r = 8, k_w = 18, k_h = 12,
      k_fill = ''#8BD3DD'', k_stroke = Some ''#000'', k_strokeWidth = 1\<rparr>"

definition sampleGroup :: group where
  "sampleGroup =
     \<lparr>g_x = 400, g_y = 300, g_rotation = 0, g_speed = 1 / 1000, g_scale = 1,
      g_children = [sampleChild, sampleChild\<lparr>k_kind := KCircle, k_x := - 30\<rparr>]\<rparr>"

definition sampleState :: state where
  "sampleState =
     \<lparr>dpr = 1, width = 800, height = 600, canvasWidth = 800, canvasHeight = 600,
      shapes = [Triangle sampleTriangle, Rect sampleRect],
      strokes = [sampleStroke], groups = [sampleGroup],
      running = True, lastNow = 0, time = 0, rafPending = 1,
      resizeListener = True, canvasAttached = True, apiInstalled = True\<rparr>"

text \<open>
  The context calls of the first frame on \<open>sampleState\<close>, at \<open>now = 16\<close>, traced by hand
  through \<^verbatim>\<open>frame\<close>: the clock is \<open>0.016\<close>, the hatch step is 23 and gives 61 lines, the
  rect (at \<open>y = 40\<close>) is drawn before the triangle (at \<open>y = 50\<close>).
\<close>

definition sampleTrace :: "cmd list" where
  "sampleTrace =
     [ClearRect 0 0 800 600,
      FillStyle (LinearGradient 0 0 800 600 [(0, Hex ''#FFF9F2''), (1, Hex ''#F0F7FF'')]),
      FillRect 0 0 800 600,
      Save, GlobalAlpha 0.04, StrokeStyle (Hex ''#000''), LineWidth 1]
     @ concat (map (\<lambda>k. [BeginPath, MoveTo (- 600 + real k * 23) 0,
                           LineTo (- 600 + real k * 23 + 600) 600, Stroke])
                   [0 ..< 61])
     @ [Restore,
        Save, GlobalAlpha 0.12, Translate 400 270, Rotate (sin (0.016 * 0.1) * 0.4),
        BeginPath, Arc 0 0 168 0 (pi * 2), LineWidth 60, StrokeStyle (Hex ''#FFC857''),
        Stroke, Restore,
        Save, Translate 400 300, Rotate (0.001 + sin (0.016 * 0.2) * 0.03), Scale 1 1,
        Save, Translate 30 0, FillStyle (Color (Hex ''#8BD3DD'')),
        FillRect (- 9) (- 6) 18 12, LineWidth 1, StrokeStyle (Hex ''#000''),
        StrokeRect (- 9) (- 6) 18 12, Restore,
        Save, Translate (- 30) 0, BeginPath, FillStyle (Color (Hex ''#8BD3DD'')),
        Arc 0 0 (8 * (1 + 0.08 * sin (0.016 * 0.9 + (- 30 + 0) * 0.01))) 0 (pi * 2), Fill,
        LineWidth 1, StrokeStyle (Hex ''#000''), Stroke, Restore,
        Restore,
        Save, LineJoin ''round'', LineCap ''round'', BeginPath,
        MoveTo (100 + sin (0.016 * 0.002) * 6) (100 + cos (0.016 * 0.002) * 6),
        QuadraticCurveTo (140 + sin (0.016 * 0.002) * 6) (110 + cos (0.016 * 0.002) * 6)
                         (150 + sin (0.016 * 0.002) * 6) (120 + cos (0.016 * 0.002) * 6),
        QuadraticCurveTo (190 + sin (0.016 * 0.002) * 6) (80 + cos (0.016 * 0.002) * 6)
                         (200 + sin (0.016 * 0.002) * 6) (90 + cos (0.016 * 0.002) * 6),
        QuadraticCurveTo (240 + sin (0.016 * 0.002) * 6) (120 + cos (0.016 * 0.002) * 6)
                         (250 + sin (0.016 * 0.002) * 6) (130 + cos (0.016 * 0.002) * 6),
        StrokeStyle (Hex ''#6F2DA8''), LineWidth 2, GlobalAlpha 0.9, Stroke, Restore,
        Save, Translate 200 40, Rotate 0, BeginPath, RectPath (- 15) (- 10) 30 20,
        FillStyle (LinearGradient (- 15) (- 10) 15 10
                     [(0, Hex ''#3A7CA5''), (1, Rgba (Some 58) (Some 124) (Some 165) 0.6)]),
        Fill, LineWidth 2, StrokeStyle (Hex ''#000000''), Stroke, Restore,
        Save, Translate 100 50, Rotate 0.01, BeginPath,
        MoveTo 0 (- 24), LineTo 24 16, LineTo (- 24) 16, ClosePath,
        FillStyle (LinearGradient (- 40) (- 40) 40 40
                     [(0, Hex ''#F23B5A''), (1, Rgba (Some 242) (Some 59) (Some 90) 0.6)]),
        Fill, LineWidth 1, StrokeStyle (Hex ''#000000''), Stroke, Restore,
        Save, GlobalAlpha 0.95, Translate 680 108, Rotate (sin (0.016 * 0.6) * 0.6),
        BeginPath, FillStyle (Color (Hex ''#000'')), Arc 0 0 22 0 (pi * 2), Fill,
        BeginPath, FillStyle (Color (Hex ''#fff'')), Arc (- 6) (- 6) 6 0 (pi * 2), Fill,
        Restore,
        Save, Translate 48 552, Rotate (- 0.12 + sin (0.016 * 0.4) * 0.02), GlobalAlpha 0.9,
        FillStyle (Color (Hex ''#3A7CA5'')), FillRect 0 0 10 36, BeginPath,
        MoveTo 8 18, LineTo 34 0, LineTo 34 6, LineTo 12 22, LineTo 34 36, LineTo 34 42,
        ClosePath, Fill, Restore]"

text \<open>A possible run of \<^verbatim>\<open>Math.random()\<close>: always one half.\<close>

definition halves :: "nat \<Rightarrow> real" where
  "halves n = 1 / 2"

definition sampleEvents :: "event list" where
  "sampleEvents = [Raf 16, CanvasClick 20, WindowResize 500 400, ApiPause, Raf 32, ApiDestroy]"

section \<open>Properties\<close>

subsection \<open>Loops as maps\<close>

lemma js_or_Num_0: "js_or (Num a) 0 = a"
  by simp

lemma drawGroups_fst: "fst (drawGroups gs t) = map (\<lambda>g. fst (drawGroup g t)) gs"
  by (induction gs) (simp_all add: split_def Let_def)

lemma drawGroups_snd: "snd (drawGroups gs t) = concat (map (\<lambda>g. snd (drawGroup g t)) gs)"
  by (induction gs) (simp_all add: split_def Let_def)

lemma drawShapes_fst: "fst (drawShapes w h t ss) = map (\<lambda>s. fst (shapeStep w h t s)) ss"
  by (induction ss) (simp_all add: split_def Let_def)

lemma drawShapes_snd:
  "snd (drawShapes w h t ss) = concat (map (\<lambda>s. snd (shapeStep w h t s)) ss)"
  by (induction ss) (simp_all add: split_def Let_def)

lemma drawStroke_ok: "s_points s \<noteq> [] \<Longrightarrow> snd (drawStroke s t) = None"
  by (cases "s_points s") (simp_all add: drawStroke_def Let_def)

lemma drawStrokes_ok:
  "\<forall>s \<in> set ss. s_points s \<noteq> [] \<Longrightarrow>
     drawStrokes ss t = (concat (map (\<lambda>s. fst (drawStroke s t)) ss), None)"
proof (induction ss)
  case Nil
  then show ?case by simp
next
  case (Cons s ss)
  then have "snd (drawStroke s t) = None"
    by (simp add: drawStroke_ok)
  then obtain c where c: "drawStroke s t = (c, None)"
    by (cases "drawStroke s t") simp
  from Cons show ?case
    by (simp add: c)
qed

subsection \<open>One frame\<close>

lemma frame_paused:
  "\<not> running st \<Longrightarrow>
     frame now st = (st\<lparr>lastNow := now, rafPending := Suc (rafPending st)\<rparr>, [], None)"
  by (simp add: frame_def requestAnimationFrame_def Let_def)

lemma frame_running:
  assumes "running st" "strokes_ok st"
  shows "frame now st =
     (st\<lparr>lastNow := now, time := frameTime now st,
         groups := map (\<lambda>g. fst (drawGroup g (frameTime now st))) (groups st),
         shapes := map (\<lambda>s. fst (shapeStep (width st) (height st) (frameTime now st) s))
                      (sortShapes (shapes st)),
         rafPending := Suc (rafPending st)\<rparr>,
      [ClearRect 0 0 (width st) (height st)]
      @ drawBackgroundTexture (width st) (height st)
      @ ringCmds (width st) (height st) (frameTime now st)
      @ concat (map (\<lambda>g. snd (drawGroup g (frameTime now st))) (groups st))
      @ concat (map (\<lambda>s. fst (drawStroke s (frameTime now st))) (strokes st))
      @ concat (map (\<lambda>s. snd (shapeStep (width st) (height st) (frameTime now st) s))
                    (sortShapes (shapes st)))
      @ accentCmds (width st) (height st) (frameTime now st)
      @ signatureCmds (width st) (height st) (frameTime now st),
      None)"
proof -
  have ok: "\<forall>s \<in> set (strokes st). s_points s \<noteq> []"
    using assms(2) by (simp add: strokes_ok_def)
  show ?thesis
    using assms(1)
    by (simp add: frame_def Let_def split_def drawStrokes_ok [OF ok] drawGroups_fst
        drawGroups_snd drawShapes_fst drawShapes_snd requestAnimationFrame_def frameTime_def)
qed

lemma frame_lastNow: "lastNow (fst (frame now st)) = now"
  by (simp add: frame_def Let_def split_def requestAnimationFrame_def split: option.splits)

lemma frame_strokes: "strokes (fst (frame now st)) = strokes st"
  by (simp add: frame_def Let_def split_def requestAnimationFrame_def split: option.splits)

lemma frame_groups:
  "groups (fst (frame now st)) =
     (if running st then map (\<lambda>g. fst (drawGroup g (frameTime now st))) (groups st)
      else groups st)"
  by (simp add: frame_def Let_def split_def requestAnimationFrame_def drawGroups_fst
      frameTime_def split: option.splits)

lemma frame_shapes:
  "shapes (fst (frame now st)) = shapes st \<or>
   shapes (fst (frame now st)) =
     map (\<lambda>s. fst (shapeStep (width st) (height st) (frameTime now st) s))
         (sortShapes (shapes st))"
  by (simp add: frame_def Let_def split_def requestAnimationFrame_def drawShapes_fst
      frameTime_def split: option.splits)

lemma frame_surface:
  "width (fst (frame now st)) = width st \<and> height (fst (frame now st)) = height st"
  by (simp add: frame_def Let_def split_def requestAnimationFrame_def split: option.splits)

subsection \<open>Records that a frame does not touch\<close>

lemma drawGroup_children: "g_children (fst (drawGroup g t)) = g_children g"
  by (simp add: drawGroup_def Let_def)

lemma run_Cons_fst: "fst (run (e # es) st) = fst (run es (fst (step e st)))"
  by (simp add: split_def Let_def)

lemma run_Cons_snd:
  "snd (run (e # es) st) = fst (snd (step e st)) @ snd (run es (fst (step e st)))"
  by (simp add: split_def Let_def)

lemma step_strokes: "strokes (fst (step e st)) = strokes st"
  by (cases e)
     (simp_all add: frame_strokes pause_def resume_def toggle_def destroy_def resize_def
        Let_def split_def)

lemma run_strokes: "strokes (fst (run evs st)) = strokes st"
  by (induction evs arbitrary: st) (simp_all add: run_Cons_fst step_strokes del: run.simps(2))

lemma frame_children:
  "map g_children (groups (fst (frame now st))) = map g_children (groups st)"
  by (simp add: frame_groups drawGroup_children comp_def)

lemma step_children:
  "map g_children (groups (fst (step e st))) = map g_children (groups st)"
  by (cases e)
     (simp_all add: frame_children pause_def resume_def toggle_def destroy_def resize_def
        Let_def split_def)

lemma run_children:
  "map g_children (groups (fst (run evs st))) = map g_children (groups st)"
  by (induction evs arbitrary: st) (simp_all add: run_Cons_fst step_children del: run.simps(2))

subsection \<open>Triangles\<close>

lemma shapeStep_Triangle:
  "\<exists>s'. fst (shapeStep w h tm (Triangle s)) = Triangle s' \<and> t_x s' = t_x s \<and> t_y s' = t_y s"
  by (simp add: drawTriangle_def Let_def split_def)

lemma shapeStep_Circle: "\<exists>s'. fst (shapeStep w h tm (Circle s)) = Circle s'"
  by (simp add: Let_def split_def)

lemma shapeStep_Rect: "\<exists>s'. fst (shapeStep w h tm (Rect s)) = Rect s'"
  by (simp add: Let_def split_def)

lemma trianglePos_step:
  "trianglePos (map (\<lambda>s. fst (shapeStep w h tm s)) ss) = trianglePos ss"
proof (induction ss)
  case Nil
  then show ?case by simp
next
  case (Cons a ss)
  show ?case
  proof (cases a)
    case (Circle c)
    with shapeStep_Circle [of w h tm c] Cons show ?thesis by auto
  next
    case (Triangle tr)
    with shapeStep_Triangle [of w h tm tr] Cons show ?thesis by auto
  next
    case (Rect r)
    with shapeStep_Rect [of w h tm r] Cons show ?thesis by auto
  qed
qed

lemma trianglePos_insort:
  "mset (trianglePos (insort_key k x xs)) = mset (trianglePos (x # xs))"
proof (induction xs)
  case Nil
  then show ?case by simp
next
  case (Cons a xs)
  then show ?case
    by (cases x; cases a) simp_all
qed

lemma trianglePos_sort: "mset (trianglePos (sort_key k xs)) = mset (trianglePos xs)"
proof (induction xs)
  case Nil
  then show ?case by simp
next
  case (Cons a xs)
  have "mset (trianglePos (sort_key k (a # xs)))
          = mset (trianglePos (a # sort_key k xs))"
    by (simp add: trianglePos_insort)
  also have "\<dots> = mset (trianglePos (a # xs))"
    using Cons by (cases a) simp_all
  finally show ?case .
qed

lemma frame_trianglePos:
  "mset (trianglePos (shapes (fst (frame now st)))) = mset (trianglePos (shapes st))"
  using frame_shapes [of now st]
  by (auto simp: trianglePos_step sortShapes_def trianglePos_sort)

lemma step_trianglePos:
  "mset (trianglePos (shapes (fst (step e st)))) = mset (trianglePos (shapes st))"
proof (cases e)
  case (Raf now)
  then show ?thesis
    using frame_trianglePos [of now "st\<lparr>rafPending := rafPending st - 1\<rparr>"] by simp
qed (simp_all add: pause_def resume_def toggle_def destroy_def resize_def Let_def split_def)

lemma run_trianglePos:
  "mset (trianglePos (shapes (fst (run evs st)))) = mset (trianglePos (shapes st))"
  by (induction evs arbitrary: st) (simp_all add: run_Cons_fst step_trianglePos del: run.simps(2))

subsection \<open>After \<open>destroy\<close>\<close>

lemma destroyed_destroy: "destroyed (destroy st)"
  by (simp add: destroyed_def destroy_def Let_def)

lemma step_destroyed:
  assumes "destroyed st" "\<not> restarts e"
  shows "destroyed (fst (step e st)) \<and> fst (snd (step e st)) = []
         \<and> shapes (fst (step e st)) = shapes st \<and> strokes (fst (step e st)) = strokes st
         \<and> groups (fst (step e st)) = groups st \<and> time (fst (step e st)) = time st"
  using assms
  by (cases e)
     (simp_all add: destroyed_def frame_paused pause_def destroy_def Let_def)

lemma run_destroyed:
  "destroyed st \<Longrightarrow> \<forall>e \<in> set evs. \<not> restarts e \<Longrightarrow>
     snd (run evs st) = [] \<and> shapes (fst (run evs st)) = shapes st
     \<and> strokes (fst (run evs st)) = strokes st \<and> groups (fst (run evs st)) = groups st
     \<and> time (fst (run evs st)) = time st"
proof (induction evs arbitrary: st)
  case Nil
  then show ?case by simp
next
  case (Cons e evs)
  from Cons.prems have s: "destroyed (fst (step e st)) \<and> fst (snd (step e st)) = []
         \<and> shapes (fst (step e st)) = shapes st \<and> strokes (fst (step e st)) = strokes st
         \<and> groups (fst (step e st)) = groups st \<and> time (fst (step e st)) = time st"
    by (intro step_destroyed) simp_all
  with Cons.IH [of "fst (step e st)"] Cons.prems(2) show ?case
    by (simp add: run_Cons_fst run_Cons_snd del: run.simps(2))
qed

subsection \<open>Generated strokes\<close>

lemma wavyLoop_length:
  "length (fst (wavyLoop rnd cx cy angle len segs i n)) = nat (segs + 1 - i)"
proof (induction rnd cx cy angle len segs i n rule: wavyLoop.induct)
  case (1 rnd cx cy angle len segs i n)
  show ?case
  proof (cases "i < segs + 1")
    case True
    then have "length (fst (wavyLoop rnd cx cy angle len segs i n))
        = Suc (length (fst (wavyLoop rnd cx cy angle len segs (i + 1)
              (snd (rand rnd (- 40) 40 (snd (rand rnd (- 40) 40 n)))))))"
      by (subst wavyLoop.simps) (simp add: split_def Let_def)
    also have "\<dots> = Suc (nat (segs + 1 - (i + 1)))"
      using "1.IH" [OF True refl refl prod.collapse refl prod.collapse refl] by simp
    also have "\<dots> = nat (segs + 1 - i)"
      using True by simp
    finally show ?thesis .
  next
    case False
    then show ?thesis
      by (subst wavyLoop.simps) simp
  qed
qed

lemma makeStroke_points:
  "s_points (fst (makeStroke rnd w h n)) =
     fst (wavyLoop rnd (100 + rnd n * (w - 100 - 100)) (100 + rnd (n + 1) * (h - 100 - 100))
            (0 + rnd (n + 5) * (TAU - 0))
            ((120 + rnd (n + 4) * (min w h * 0.8 - 120)) * (0.3 + rnd (n + 2) * (1.5 - 0.3)))
            \<lfloor>3 + rnd (n + 3) * (8 - 3)\<rfloor> 0 (n + 6))"
  by (simp add: makeStroke_def buildWavyLine_def rand_def pickColor_def Let_def split_def
      eval_nat_numeral)

lemma segs_range:
  assumes "0 \<le> (u::real)" "u < 1"
  shows "3 \<le> \<lfloor>3 + u * (8 - 3)\<rfloor> \<and> \<lfloor>3 + u * (8 - 3)\<rfloor> \<le> 7"
proof -
  have "3 \<le> 3 + u * (8 - 3)" using assms by simp
  moreover have "3 + u * (8 - 3) < 8" using assms by simp
  ultimately show ?thesis
    by (simp add: le_floor_iff floor_le_iff)
qed

lemma palette_index:
  assumes "0 \<le> (u::real)" "u < 1"
  shows "nat \<lfloor>0 + u * (of_nat (length PALETTE) - 0)\<rfloor> < length PALETTE"
proof -
  have len: "length PALETTE = 8"
    by (simp add: PALETTE_def)
  have "u * 8 < 8"
    using assms by simp
  then have "\<lfloor>u * 8\<rfloor> < 8"
    by (simp add: floor_less_iff)
  then have "nat \<lfloor>u * 8\<rfloor> < 8"
    by arith
  then show ?thesis
    by (simp add: len)
qed

subsection \<open>States that the sketch can reach\<close>

lemma repeatMake_all:
  "(\<And>m. P (fst (gen m))) \<Longrightarrow> \<forall>x \<in> set (fst (repeatMake k gen n)). P x"
  by (induction k arbitrary: n) (simp_all add: split_def Let_def)

lemma makeStroke_nonempty:
  assumes "random_ok rnd"
  shows "s_points (fst (makeStroke rnd w h n)) \<noteq> []"
proof -
  have "0 \<le> rnd (n + 3)" "rnd (n + 3) < 1"
    using assms by (simp_all add: random_ok_def)
  then have "3 \<le> \<lfloor>3 + rnd (n + 3) * (8 - 3)\<rfloor>"
    using segs_range by blast
  then have "0 < length (s_points (fst (makeStroke rnd w h n)))"
    by (simp only: makeStroke_points wavyLoop_length)
  then show ?thesis
    by simp
qed

lemma init_strokes:
  "\<exists>n. strokes (init rnd d iw ih now)
        = fst (repeatMake 5 (makeStroke rnd (max 300 iw) (max 200 ih)) n)"
  by (simp add: init_def Let_def split_def requestAnimationFrame_def resize_def) blast

text \<open>The start state has strokes that can be drawn, a surface of at least 300 by 200,
  and one callback requested.\<close>

lemma init_ok:
  assumes "random_ok rnd"
  shows "strokes_ok (init rnd d iw ih now) \<and> 300 \<le> width (init rnd d iw ih now)
         \<and> 200 \<le> height (init rnd d iw ih now) \<and> running (init rnd d iw ih now)
         \<and> rafPending (init rnd d iw ih now) = 1"
proof -
  obtain n where n: "strokes (init rnd d iw ih now)
        = fst (repeatMake 5 (makeStroke rnd (max 300 iw) (max 200 ih)) n)"
    using init_strokes by blast
  have "\<forall>s \<in> set (fst (repeatMake 5 (makeStroke rnd (max 300 iw) (max 200 ih)) n)).
          s_points s \<noteq> []"
    by (rule repeatMake_all) (rule makeStroke_nonempty [OF assms])
  then have "strokes_ok (init rnd d iw ih now)"
    by (simp add: strokes_ok_def n)
  moreover have "300 \<le> width (init rnd d iw ih now) \<and> 200 \<le> height (init rnd d iw ih now)
         \<and> running (init rnd d iw ih now) \<and> rafPending (init rnd d iw ih now) = 1"
    by (simp add: init_def Let_def split_def requestAnimationFrame_def resize_def)
  ultimately show ?thesis
    by simp
qed

lemma step_surface:
  "300 \<le> width st \<and> 200 \<le> height st \<Longrightarrow>
     300 \<le> width (fst (step e st)) \<and> 200 \<le> height (fst (step e st))"
  by (cases e)
     (simp_all add: frame_surface pause_def resume_def toggle_def destroy_def resize_def
        Let_def split_def)

text \<open>Both properties are kept by every event.\<close>

lemma run_reachable_ok:
  "strokes_ok st \<and> 300 \<le> width st \<and> 200 \<le> height st \<Longrightarrow>
     strokes_ok (fst (run evs st)) \<and> 300 \<le> width (fst (run evs st))
     \<and> 200 \<le> height (fst (run evs st))"
proof (induction evs arbitrary: st)
  case Nil
  then show ?case by simp
next
  case (Cons e evs)
  have "strokes_ok (fst (step e st))"
    using Cons.prems by (simp add: strokes_ok_def step_strokes)
  with step_surface [of st e] Cons.prems Cons.IH [of "fst (step e st)"] show ?case
    by (simp add: run_Cons_fst del: run.simps(2))
qed

subsection \<open>Further facts about a frame and about \<open>drawCircle\<close>\<close>

lemma frame_time:
  "time (fst (frame now st)) = (if running st then frameTime now st else time st)"
  by (simp add: frame_def Let_def split_def requestAnimationFrame_def frameTime_def
      split: option.splits)

lemma sortShapes_sorted: "sorted (map shape_y (sortShapes ss))"
proof -
  have "(\<lambda>s. js_or (Num (shape_y s)) 0) = shape_y"
    by (rule ext) simp
  then show ?thesis
    by (simp add: sortShapes_def)
qed

lemma sortShapes_mset: "mset (sortShapes ss) = mset ss"
  by (simp add: sortShapes_def)

lemma drawCircle_x:
  "c_x (fst (drawCircle w h s t)) =
     (if c_x s + c_vx s < - c_r s then (if w + c_r s > w + c_r s then - c_r s else w + c_r s)
      else if c_x s + c_vx s > w + c_r s then - c_r s
      else c_x s + c_vx s)"
  by (simp add: drawCircle_def Let_def)

lemma drawCircle_y:
  "c_y (fst (drawCircle w h s t)) =
     (if c_y s + c_vy s < - c_r s then (if h + c_r s > h + c_r s then - c_r s else h + c_r s)
      else if c_y s + c_vy s > h + c_r s then - c_r s
      else c_y s + c_vy s)"
  by (simp add: drawCircle_def Let_def)

lemma drawCircle_fixed:
  "c_vx (fst (drawCircle w h s t)) = c_vx s \<and> c_vy (fst (drawCircle w h s t)) = c_vy s
   \<and> c_r (fst (drawCircle w h s t)) = c_r s \<and> c_phase (fst (drawCircle w h s t)) = c_phase s"
  by (simp add: drawCircle_def Let_def)

subsection \<open>The hatch loop in closed form\<close>

lemma hatchLines_closed:
  "hatchLines x w h =
     concat (map (\<lambda>k. [BeginPath, MoveTo (x + real k * hatchStep w h) 0,
                         LineTo (x + real k * hatchStep w h + h) h, Stroke])
                 [0 ..< nat \<lceil>(w - x) / hatchStep w h\<rceil>])"
proof (induction x w h rule: hatchLines.induct)
  case (1 x w h)
  let ?s = "hatchStep w h"
  let ?f = "\<lambda>x k. [BeginPath, MoveTo (x + real k * ?s) 0, LineTo (x + real k * ?s + h) h, Stroke]"
  have s: "20 \<le> ?s"
    by (simp add: hatchStep_def)
  show ?case
  proof (cases "x < w")
    case True
    let ?m = "nat \<lceil>(w - (x + ?s)) / ?s\<rceil>"
    have "(w - (x + ?s)) / ?s = (w - x) / ?s - 1"
      using s by (simp add: field_simps)
    then have c: "\<lceil>(w - (x + ?s)) / ?s\<rceil> = \<lceil>(w - x) / ?s\<rceil> - 1"
      by simp
    have "0 < (w - x) / ?s"
      using True s by simp
    then have p: "0 < \<lceil>(w - x) / ?s\<rceil>"
      by simp
    from c p have n: "nat \<lceil>(w - x) / ?s\<rceil> = Suc ?m"
      by arith
    have shift: "?f x (Suc k) = ?f (x + ?s) k" for k
      by (simp add: algebra_simps)
    have "hatchLines x w h = ?f x 0 @ hatchLines (x + ?s) w h"
      using True by (subst hatchLines.simps) simp
    also have "\<dots> = ?f x 0 @ concat (map (?f (x + ?s)) [0 ..< ?m])"
      using "1.IH" [OF True] by simp
    also have "\<dots> = ?f x 0 @ concat (map (\<lambda>k. ?f x (Suc k)) [0 ..< ?m])"
      by (simp only: shift)
    also have "\<dots> = concat (map (?f x) (0 # map Suc [0 ..< ?m]))"
      by (simp add: comp_def)
    finally have e: "hatchLines x w h = concat (map (?f x) (0 # map Suc [0 ..< ?m]))" .
    have "0 # map Suc [0 ..< ?m] = [0 ..< Suc ?m]"
      by (simp only: map_Suc_upt upt_conv_Cons [OF zero_less_Suc])
    with e show ?thesis
      by (simp only: n)
  next
    case False
    then have "(w - x) / ?s \<le> 0"
      using s by (simp add: divide_nonpos_pos)
    then have "\<lceil>(w - x) / ?s\<rceil> \<le> 0"
      by (simp add: ceiling_le_iff)
    then have "nat \<lceil>(w - x) / ?s\<rceil> = 0"
      by simp
    moreover have "hatchLines x w h = []"
      using False by (subst hatchLines.simps) simp
    ultimately show ?thesis
      by simp
  qed
qed

subsection \<open>What each routine draws\<close>

lemma drawGroup_calls:
  "drawGroup g tm =
     (g\<lparr>g_rotation := g_rotation g + g_speed g\<rparr>,
      [Save, Translate (g_x g) (g_y g),
       Rotate (g_rotation g + g_speed g + sin (tm * 0.2) * 0.03),
       Scale (g_scale g) (g_scale g)]
      @ concat (map (drawChild tm) (g_children g))
      @ [Restore])"
  by (simp add: drawGroup_def Let_def)

lemma drawChild_calls:
  "drawChild tm k =
     [Save, Translate (k_x k) (k_y k)]
     @ (case k_kind k of
          KCircle \<Rightarrow>
            [BeginPath, FillStyle (Color (Hex (k_fill k))),
             Arc 0 0 (k_r k * (1 + 0.08 * sin (tm * 0.9 + (k_x k + k_y k) * 0.01))) 0 TAU,
             Fill]
            @ (case k_stroke k of
                 None \<Rightarrow> []
               | Some col \<Rightarrow>
                   if col = [] then []
                   else [LineWidth (k_strokeWidth k), StrokeStyle (Hex col), Stroke])
        | KRect \<Rightarrow>
            [FillStyle (Color (Hex (k_fill k))),
             FillRect (- k_w k / 2) (- k_h k / 2) (k_w k) (k_h k)]
            @ (case k_stroke k of
                 None \<Rightarrow> []
               | Some col \<Rightarrow>
                   if col = [] then []
                   else [LineWidth (k_strokeWidth k), StrokeStyle (Hex col),
                         StrokeRect (- k_w k / 2) (- k_h k / 2) (k_w k) (k_h k)])
        | KTriangle \<Rightarrow>
            [BeginPath, MoveTo 0 (- k_r k), LineTo (k_r k) (k_r k),
             LineTo (- k_r k) (k_r k), ClosePath, FillStyle (Color (Hex (k_fill k))), Fill]
            @ (case k_stroke k of
                 None \<Rightarrow> []
               | Some col \<Rightarrow>
                   if col = [] then []
                   else [LineWidth (k_strokeWidth k), StrokeStyle (Hex col), Stroke]))
     @ [Restore]"
  by (simp add: drawChild_def outline_def Let_def split: kind.split option.split)

lemma drawStroke_calls:
  "drawStroke s tm =
     (case s_points s of
        [] \<Rightarrow> ([Save, LineJoin ''round'', LineCap ''round'', BeginPath], Some TypeError)
      | p0 # rest \<Rightarrow>
          ([Save, LineJoin ''round'', LineCap ''round'', BeginPath,
            MoveTo (p_x p0 + sin (tm * s_drift s + s_phase s) * 6)
                   (p_y p0 + cos (tm * s_drift s + s_phase s) * 6)]
           @ map (\<lambda>p. QuadraticCurveTo
                          (p_x p - 10 + sin (tm * s_drift s + s_phase s) * 6)
                          (p_y p - 10 + cos (tm * s_drift s + s_phase s) * 6)
                          (p_x p + sin (tm * s_drift s + s_phase s) * 6)
                          (p_y p + cos (tm * s_drift s + s_phase s) * 6)) rest
           @ [StrokeStyle (Hex (s_color s)), LineWidth (s_width s), GlobalAlpha 0.9,
              Stroke, Restore],
           None))"
  by (simp add: drawStroke_def Let_def)

lemma drawCircle_moved:
  "fst (drawCircle w h s t) =
     s\<lparr>c_x := (if (if c_x s + c_vx s < - c_r s then w + c_r s else c_x s + c_vx s)
                     > w + c_r s
                then - c_r s
                else (if c_x s + c_vx s < - c_r s then w + c_r s else c_x s + c_vx s)),
       c_y := (if (if c_y s + c_vy s < - c_r s then h + c_r s else c_y s + c_vy s)
                     > h + c_r s
                then - c_r s
                else (if c_y s + c_vy s < - c_r s then h + c_r s else c_y s + c_vy s))\<rparr>"
  by (simp add: drawCircle_def Let_def)

lemma drawCircle_calls:
  "snd (drawCircle w h s t) =
     [Save,
      Translate (c_x (fst (drawCircle w h s t))) (c_y (fst (drawCircle w h s t))),
      GlobalCompositeOperation ''lighter'',
      FillStyle (RadialGradient 0 0 (c_r s * (1 + 0.06 * sin (t * 0.9 + c_phase s)) * 0.1)
                   0 0 (c_r s * (1 + 0.06 * sin (t * 0.9 + c_phase s)) * 1.1)
                   [(0, Hex (c_fill s)), (1, hexToRgba (c_fill s) 0.05)]),
      BeginPath,
      Arc 0 0 (c_r s * (1 + 0.06 * sin (t * 0.9 + c_phase s))) 0 TAU,
      Fill,
      GlobalCompositeOperation ''source-over'',
      BeginPath,
      FillStyle (Color (Hex (c_fill s))),
      Arc 0 0 (c_r s * (1 + 0.06 * sin (t * 0.9 + c_phase s)) * 0.6
                 * (1 + sin (c_phase s + t * c_wobble s) * 0.08 * 0.6)) 0 TAU,
      Fill]
     @ (if c_strokeWidth s > 0
        then [LineWidth (c_strokeWidth s), StrokeStyle (hexToRgba ''#000000'' 0.12), Stroke]
        else [])
     @ [Restore]"
proof -
  have f: "c_r (fst (drawCircle w h s t)) = c_r s \<and> c_phase (fst (drawCircle w h s t)) = c_phase s
           \<and> c_fill (fst (drawCircle w h s t)) = c_fill s
           \<and> c_strokeWidth (fst (drawCircle w h s t)) = c_strokeWidth s"
    by (simp add: drawCircle_moved)
  have "snd (drawCircle w h s t) =
     [Save,
      Translate (c_x (fst (drawCircle w h s t))) (c_y (fst (drawCircle w h s t))),
      GlobalCompositeOperation ''lighter'',
      FillStyle (RadialGradient 0 0
                   (c_r (fst (drawCircle w h s t))
                      * (1 + 0.06 * sin (t * 0.9 + c_phase (fst (drawCircle w h s t)))) * 0.1)
                   0 0
                   (c_r (fst (drawCircle w h s t))
                      * (1 + 0.06 * sin (t * 0.9 + c_phase (fst (drawCircle w h s t)))) * 1.1)
                   [(0, Hex (c_fill (fst (drawCircle w h s t)))),
                    (1, hexToRgba (c_fill (fst (drawCircle w h s t))) 0.05)]),
      BeginPath,
      Arc 0 0 (c_r (fst (drawCircle w h s t))
                 * (1 + 0.06 * sin (t * 0.9 + c_phase (fst (drawCircle w h s t))))) 0 TAU,
      Fill,
      GlobalCompositeOperation ''source-over'',
      BeginPath,
      FillStyle (Color (Hex (c_fill (fst (drawCircle w h s t))))),
      Arc 0 0 (c_r (fst (drawCircle w h s t))
                 * (1 + 0.06 * sin (t * 0.9 + c_phase (fst (drawCircle w h s t)))) * 0.6
                 * (1 + sin (c_phase s + t * c_wobble s) * 0.08 * 0.6)) 0 TAU,
      Fill]
     @ (if c_strokeWidth (fst (drawCircle w h s t)) > 0
        then [LineWidth (c_strokeWidth (fst (drawCircle w h s t))),
              StrokeStyle (hexToRgba ''#000000'' 0.12), Stroke]
        else [])
     @ [Restore]"
    by (simp only: drawCircle_def Let_def fst_conv snd_conv)
  then show ?thesis
    by (simp only: f)
qed

lemma shapeStep_Circle_calls:
  "shapeStep w h tm (Circle c) =
     (let par = 1 + ((c_y c / h) - 0.5) * 0.08;
          x1 = c_x c + sin (tm * 0.2 + (c_x c + c_y c) * 0.001) * 0.02 * par;
          y1 = c_y c + cos (tm * 0.14 + (x1 - c_y c) * 0.001) * 0.02 * par;
          x2 = x1 + c_vx c;
          y2 = y1 + c_vy c;
          x3 = (if x2 < - c_r c then w + c_r c else x2);
          x4 = (if x3 > w + c_r c then - c_r c else x3);
          y3 = (if y2 < - c_r c then h + c_r c else y2);
          y4 = (if y3 > h + c_r c then - c_r c else y3);
          rad = c_r c * (1 + 0.06 * sin (tm * 0.9 + c_phase c));
          wobble = sin (c_phase c + tm * c_wobble c) * 0.08
      in (Circle (c\<lparr>c_x := x4, c_y := y4\<rparr>),
          [Save, Translate x4 y4, GlobalCompositeOperation ''lighter'',
           FillStyle (RadialGradient 0 0 (rad * 0.1) 0 0 (rad * 1.1)
                        [(0, Hex (c_fill c)), (1, hexToRgba (c_fill c) 0.05)]),
           BeginPath, Arc 0 0 rad 0 TAU, Fill,
           GlobalCompositeOperation ''source-over'', BeginPath,
           FillStyle (Color (Hex (c_fill c))),
           Arc 0 0 (rad * 0.6 * (1 + wobble * 0.6)) 0 TAU, Fill]
          @ (if c_strokeWidth c > 0
             then [LineWidth (c_strokeWidth c), StrokeStyle (hexToRgba ''#000000'' 0.12),
                   Stroke]
             else [])
          @ [Restore]))"
proof -
  let ?s = "c\<lparr>c_x := c_x c + sin (tm * 0.2 + (c_x c + c_y c) * 0.001) * 0.02
                        * (1 + ((c_y c / h) - 0.5) * 0.08),
               c_y := c_y c + cos (tm * 0.14
                        + (c_x c + sin (tm * 0.2 + (c_x c + c_y c) * 0.001) * 0.02
                             * (1 + ((c_y c / h) - 0.5) * 0.08) - c_y c) * 0.001) * 0.02
                        * (1 + ((c_y c / h) - 0.5) * 0.08)\<rparr>"
  have a: "shapeStep w h tm (Circle c)
             = (Circle (fst (drawCircle w h ?s tm)), snd (drawCircle w h ?s tm))"
    by (simp add: Let_def split_def)
  show ?thesis
    unfolding a drawCircle_calls drawCircle_moved Let_def
    by (simp split del: if_split cong: if_cong)
qed

lemma shapeStep_Triangle_calls:
  "shapeStep w h tm (Triangle tr) =
     (Triangle (tr\<lparr>t_rotation := t_rotation tr + t_rotationSpeed tr\<rparr>),
      [Save, Translate (t_x tr) (t_y tr), Rotate (t_rotation tr + t_rotationSpeed tr),
       BeginPath,
       MoveTo 0 (- t_size tr * 0.6),
       LineTo (t_size tr * 0.6 + t_skew tr * t_size tr) (t_size tr * 0.4),
       LineTo (- t_size tr * 0.6 + t_skew tr * t_size tr) (t_size tr * 0.4),
       ClosePath,
       FillStyle (LinearGradient (- t_size tr) (- t_size tr) (t_size tr) (t_size tr)
                    [(0, Hex (t_fill tr)), (1, hexToRgba (t_fill tr) 0.6)]),
       Fill]
      @ (case t_stroke tr of
           None \<Rightarrow> []
         | Some col \<Rightarrow>
             if col = [] then []
             else [LineWidth (t_strokeWidth tr), StrokeStyle (Hex col), Stroke])
      @ [Restore])"
  by (simp add: drawTriangle_def outline_def Let_def js_or_Num_0 del: js_or.simps(1)
      split: option.split)

lemma shapeStep_Rect_calls:
  "shapeStep w h tm (Rect re) =
     (Rect (re\<lparr>r_rotation := r_rotation re + r_rotationSpeed re\<rparr>),
      [Save, Translate (r_x re) (r_y re), Rotate (r_rotation re + r_rotationSpeed re),
       BeginPath,
       RectPath (- r_w re / 2) (- r_h re / 2) (r_w re) (r_h re),
       FillStyle (LinearGradient (- r_w re / 2) (- r_h re / 2) (r_w re / 2) (r_h re / 2)
                    [(0, Hex (r_fill re)), (1, hexToRgba (r_fill re) 0.6)]),
       Fill]
      @ (case r_stroke re of
           None \<Rightarrow> []
         | Some col \<Rightarrow>
             if col = [] then []
             else [LineWidth (r_strokeWidth re), StrokeStyle (Hex col), Stroke])
      @ [Restore])"
  by (simp add: drawRect_def outline_def Let_def js_or_Num_0 del: js_or.simps(1)
      split: option.split)

lemma sortShapes_key: "sortShapes ss = sort_key shape_y ss"
proof -
  have "(\<lambda>s. js_or (Num (shape_y s)) 0) = shape_y"
    by (rule ext) simp
  then show ?thesis
    by (simp add: sortShapes_def)
qed

text \<open>The whole of a frame that runs, with the fixed layers written out.\<close>

lemma frame_running_calls:
  assumes "running st" and "strokes_ok st"
    and "T = time st + min 40 (now - lastNow st) * 0.001"
    and "S = max 20 (min 60 (of_int \<lfloor>(width st + height st) / 60\<rfloor>))"
  shows "frame now st =
     (st\<lparr>lastNow := now, time := T,
         groups := map (\<lambda>g. fst (drawGroup g T)) (groups st),
         shapes := map (\<lambda>s. fst (shapeStep (width st) (height st) T s))
                      (sort_key shape_y (shapes st)),
         rafPending := Suc (rafPending st)\<rparr>,
      [ClearRect 0 0 (width st) (height st)]
      @ [FillStyle (LinearGradient 0 0 (width st) (height st)
                      [(0, Hex ''#FFF9F2''), (1, Hex ''#F0F7FF'')]),
         FillRect 0 0 (width st) (height st)]
      @ [Save, GlobalAlpha 0.04, StrokeStyle (Hex ''#000''), LineWidth 1]
      @ concat (map (\<lambda>k. [BeginPath,
                            MoveTo (- height st + real k * S) 0,
                            LineTo (- height st + real k * S + height st) (height st),
                            Stroke])
                    [0 ..< nat \<lceil>(width st - (- height st)) / S\<rceil>])
      @ [Restore]
      @ [Save, GlobalAlpha 0.12, Translate (width st * 0.5) (height st * 0.45),
         Rotate (sin (T * 0.1) * 0.4), BeginPath,
         Arc 0 0 (min (width st) (height st) * 0.28) 0 TAU,
         LineWidth (min (width st) (height st) * 0.1), StrokeStyle (Hex ''#FFC857''),
         Stroke, Restore]
      @ concat (map (\<lambda>g. snd (drawGroup g T)) (groups st))
      @ concat (map (\<lambda>s. fst (drawStroke s T)) (strokes st))
      @ concat (map (\<lambda>s. snd (shapeStep (width st) (height st) T s))
                    (sort_key shape_y (shapes st)))
      @ [Save, GlobalAlpha 0.95, Translate (width st * 0.85) (height st * 0.18),
         Rotate (sin (T * 0.6) * 0.6), BeginPath, FillStyle (Color (Hex ''#000'')),
         Arc 0 0 22 0 TAU, Fill, BeginPath, FillStyle (Color (Hex ''#fff'')),
         Arc (- 6) (- 6) 6 0 TAU, Fill, Restore]
      @ [Save, Translate (width st * 0.06) (height st * 0.92),
         Rotate (- 0.12 + sin (T * 0.4) * 0.02), GlobalAlpha 0.9,
         FillStyle (Color (Hex ''#3A7CA5'')), FillRect 0 0 10 36, BeginPath,
         MoveTo 8 18, LineTo 34 0, LineTo 34 6, LineTo 12 22, LineTo 34 36, LineTo 34 42,
         ClosePath, Fill, Restore],
      None)"
proof -
  have h: "hatchLines (- height st) (width st) (height st) =
      concat (map (\<lambda>k. [BeginPath,
                            MoveTo (- height st + real k * S) 0,
                            LineTo (- height st + real k * S + height st) (height st),
                            Stroke])
                    [0 ..< nat \<lceil>(width st - (- height st)) / S\<rceil>])"
    unfolding assms(4) by (subst hatchLines_closed) (simp only: hatchStep_def)
  have t: "T = frameTime now st"
    by (simp add: assms(3) frameTime_def)
  show ?thesis
    unfolding t frame_running [OF assms(1,2)] drawBackgroundTexture_def h ringCmds_def
      accentCmds_def signatureCmds_def sortShapes_key
    by simp
qed

lemma hexToRgba_palette:
  "map (\<lambda>col. hexToRgba col a)
     [''#F23B5A'', ''#FFC857'', ''#8BD3DD'', ''#3A7CA5'',
      ''#6F2DA8'', ''#FFFFFF'', ''#000000'', ''#FF7AB6'']
   = [Rgba (Some 242) (Some 59) (Some 90) a, Rgba (Some 255) (Some 200) (Some 87) a,
      Rgba (Some 139) (Some 211) (Some 221) a, Rgba (Some 58) (Some 124) (Some 165) a,
      Rgba (Some 111) (Some 45) (Some 168) a, Rgba (Some 255) (Some 255) (Some 255) a,
      Rgba (Some 0) (Some 0) (Some 0) a, Rgba (Some 255) (Some 122) (Some 182) a]"
  by (simp add: hexToRgba_def parseInt16_def isWhiteSpace_def isHexDigit_def hexDigit_def
      hexValue_def)

text \<open>What the routines draw for the records of the small scene.\<close>

lemma sample_calls:
  "snd (drawGroup sampleGroup tm) =
     [Save, Translate 400 300, Rotate (1 / 1000 + sin (tm * 0.2) * 0.03), Scale 1 1,
      Save, Translate 30 0, FillStyle (Color (Hex ''#8BD3DD'')),
      FillRect (- 9) (- 6) 18 12, LineWidth 1, StrokeStyle (Hex ''#000''),
      StrokeRect (- 9) (- 6) 18 12, Restore,
      Save, Translate (- 30) 0, BeginPath, FillStyle (Color (Hex ''#8BD3DD'')),
      Arc 0 0 (8 * (1 + 0.08 * sin (tm * 0.9 + (- 30 + 0) * 0.01))) 0 (pi * 2), Fill,
      LineWidth 1, StrokeStyle (Hex ''#000''), Stroke, Restore,
      Restore]"
  "fst (drawStroke sampleStroke tm) =
     [Save, LineJoin ''round'', LineCap ''round'', BeginPath,
      MoveTo (100 + sin (tm * 0.002) * 6) (100 + cos (tm * 0.002) * 6),
      QuadraticCurveTo (140 + sin (tm * 0.002) * 6) (110 + cos (tm * 0.002) * 6)
                       (150 + sin (tm * 0.002) * 6) (120 + cos (tm * 0.002) * 6),
      QuadraticCurveTo (190 + sin (tm * 0.002) * 6) (80 + cos (tm * 0.002) * 6)
                       (200 + sin (tm * 0.002) * 6) (90 + cos (tm * 0.002) * 6),
      QuadraticCurveTo (240 + sin (tm * 0.002) * 6) (120 + cos (tm * 0.002) * 6)
                       (250 + sin (tm * 0.002) * 6) (130 + cos (tm * 0.002) * 6),
      StrokeStyle (Hex ''#6F2DA8''), LineWidth 2, GlobalAlpha 0.9, Stroke, Restore]"
  "shapeStep w h tm (Rect sampleRect) =
     (Rect sampleRect,
      [Save, Translate 200 40, Rotate 0, BeginPath, RectPath (- 15) (- 10) 30 20,
       FillStyle (LinearGradient (- 15) (- 10) 15 10
                    [(0, Hex ''#3A7CA5''), (1, Rgba (Some 58) (Some 124) (Some 165) 0.6)]),
       Fill, LineWidth 2, StrokeStyle (Hex ''#000000''), Stroke, Restore])"
  "shapeStep w h tm (Triangle sampleTriangle) =
     (Triangle (sampleTriangle\<lparr>t_rotation := 1 / 100\<rparr>),
      [Save, Translate 100 50, Rotate 0.01, BeginPath,
       MoveTo 0 (- 24), LineTo 24 16, LineTo (- 24) 16, ClosePath,
       FillStyle (LinearGradient (- 40) (- 40) 40 40
                    [(0, Hex ''#F23B5A''), (1, Rgba (Some 242) (Some 59) (Some 90) 0.6)]),
       Fill, LineWidth 1, StrokeStyle (Hex ''#000000''), Stroke, Restore])"
proof -
  have c1: "hexToRgba ''#3A7CA5'' a = Rgba (Some 58) (Some 124) (Some 165) a" for a
    using hexToRgba_palette [of a] by simp
  have c2: "hexToRgba ''#F23B5A'' a = Rgba (Some 242) (Some 59) (Some 90) a" for a
    using hexToRgba_palette [of a] by simp
  show "snd (drawGroup sampleGroup tm) =
     [Save, Translate 400 300, Rotate (1 / 1000 + sin (tm * 0.2) * 0.03), Scale 1 1,
      Save, Translate 30 0, FillStyle (Color (Hex ''#8BD3DD'')),
      FillRect (- 9) (- 6) 18 12, LineWidth 1, StrokeStyle (Hex ''#000''),
      StrokeRect (- 9) (- 6) 18 12, Restore,
      Save, Translate (- 30) 0, BeginPath, FillStyle (Color (Hex ''#8BD3DD'')),
      Arc 0 0 (8 * (1 + 0.08 * sin (tm * 0.9 + (- 30 + 0) * 0.01))) 0 (pi * 2), Fill,
      LineWidth 1, StrokeStyle (Hex ''#000''), Stroke, Restore,
      Restore]"
    by (simp add: drawGroup_calls drawChild_calls sampleGroup_def sampleChild_def TAU_def)
  show "fst (drawStroke sampleStroke tm) =
     [Save, LineJoin ''round'', LineCap ''round'', BeginPath,
      MoveTo (100 + sin (tm * 0.002) * 6) (100 + cos (tm * 0.002) * 6),
      QuadraticCurveTo (140 + sin (tm * 0.002) * 6) (110 + cos (tm * 0.002) * 6)
                       (150 + sin (tm * 0.002) * 6) (120 + cos (tm * 0.002) * 6),
      QuadraticCurveTo (190 + sin (tm * 0.002) * 6) (80 + cos (tm * 0.002) * 6)
                       (200 + sin (tm * 0.002) * 6) (90 + cos (tm * 0.002) * 6),
      QuadraticCurveTo (240 + sin (tm * 0.002) * 6) (120 + cos (tm * 0.002) * 6)
                       (250 + sin (tm * 0.002) * 6) (130 + cos (tm * 0.002) * 6),
      StrokeStyle (Hex ''#6F2DA8''), LineWidth 2, GlobalAlpha 0.9, Stroke, Restore]"
    by (simp add: drawStroke_calls sampleStroke_def)
  show "shapeStep w h tm (Rect sampleRect) =
     (Rect sampleRect,
      [Save, Translate 200 40, Rotate 0, BeginPath, RectPath (- 15) (- 10) 30 20,
       FillStyle (LinearGradient (- 15) (- 10) 15 10
                    [(0, Hex ''#3A7CA5''), (1, Rgba (Some 58) (Some 124) (Some 165) 0.6)]),
       Fill, LineWidth 2, StrokeStyle (Hex ''#000000''), Stroke, Restore])"
    by (simp add: shapeStep_Rect_calls sampleRect_def c1 del: shapeStep.simps)
  show "shapeStep w h tm (Triangle sampleTriangle) =
     (Triangle (sampleTriangle\<lparr>t_rotation := 1 / 100\<rparr>),
      [Save, Translate 100 50, Rotate 0.01, BeginPath,
       MoveTo 0 (- 24), LineTo 24 16, LineTo (- 24) 16, ClosePath,
       FillStyle (LinearGradient (- 40) (- 40) 40 40
                    [(0, Hex ''#F23B5A''), (1, Rgba (Some 242) (Some 59) (Some 90) 0.6)]),
       Fill, LineWidth 1, StrokeStyle (Hex ''#000000''), Stroke, Restore])"
    by (simp add: shapeStep_Triangle_calls sampleTriangle_def c2 del: shapeStep.simps)
qed

section \<open>The claims\<close>

text \<open>
  C1 (amended). \<^verbatim>\<open>drawCircle\<close> first adds the velocity to the position and then tests
  the new position. On a surface of non-negative size and for a non-negative radius: a
  centre that is beyond \<open>width + r\<close> after the velocity step is put at \<open>-r\<close>, which is
  at most \<open>0\<close>; a centre that is below \<open>-r\<close> after the velocity step is put at
  \<open>width + r\<close>; the same holds for \<open>y\<close> against \<open>height\<close>. In particular a circle with
  \<open>x = width + r + 1\<close> and a velocity of magnitude below \<open>1\<close> ends at \<open>x = -r\<close>. The
  velocity fields are never changed.
\<close>

theorem drawCircle_wraps_after_move:
  assumes "0 \<le> c_r s" and "0 \<le> w" and "0 \<le> h"
  shows "(w + c_r s < c_x s + c_vx s \<longrightarrow>
            c_x (fst (drawCircle w h s t)) = - c_r s \<and> c_x (fst (drawCircle w h s t)) \<le> 0)
       \<and> (c_x s + c_vx s < - c_r s \<longrightarrow> c_x (fst (drawCircle w h s t)) = w + c_r s)
       \<and> (h + c_r s < c_y s + c_vy s \<longrightarrow>
            c_y (fst (drawCircle w h s t)) = - c_r s \<and> c_y (fst (drawCircle w h s t)) \<le> 0)
       \<and> (c_y s + c_vy s < - c_r s \<longrightarrow> c_y (fst (drawCircle w h s t)) = h + c_r s)
       \<and> (c_x s = w + c_r s + 1 \<and> \<bar>c_vx s\<bar> < 1 \<longrightarrow>
            c_x (fst (drawCircle w h s t)) = - c_r s \<and> c_x (fst (drawCircle w h s t)) \<le> 0)
       \<and> c_vx (fst (drawCircle w h s t)) = c_vx s
       \<and> c_vy (fst (drawCircle w h s t)) = c_vy s"
  using assms by (simp add: drawCircle_x drawCircle_y drawCircle_fixed)

theorem drawCircle_wraps_after_move_witness:
  "0 \<le> c_r sampleCircle \<and> 0 \<le> c_r sampleCircle2 \<and> (0::real) \<le> 800 \<and> (0::real) \<le> 600
   \<and> c_x sampleCircle = 800 + c_r sampleCircle + 1 \<and> \<bar>c_vx sampleCircle\<bar> < 1
   \<and> 800 + c_r sampleCircle < c_x sampleCircle + c_vx sampleCircle
   \<and> 600 + c_r sampleCircle < c_y sampleCircle + c_vy sampleCircle
   \<and> c_x sampleCircle2 + c_vx sampleCircle2 < - c_r sampleCircle2
   \<and> c_y sampleCircle2 + c_vy sampleCircle2 < - c_r sampleCircle2
   \<and> c_x (fst (drawCircle 800 600 sampleCircle 0)) = - 20
   \<and> c_y (fst (drawCircle 800 600 sampleCircle 0)) = - 20
   \<and> c_x (fst (drawCircle 800 600 sampleCircle2 0)) = 820
   \<and> c_y (fst (drawCircle 800 600 sampleCircle2 0)) = 620
   \<and> c_vx (fst (drawCircle 800 600 sampleCircle 0)) = 3 / 200"
  using drawCircle_wraps_after_move [of sampleCircle 800 600 0]
        drawCircle_wraps_after_move [of sampleCircle2 800 600 0]
  by (simp add: sampleCircle_def sampleCircle2_def)

text \<open>
  C1 as stated fails: a circle whose centre is outside the padded viewport before the
  update, at \<open>x = 820.01 > width + r = 820\<close>, and which drifts inwards with
  \<open>vx = -0.03\<close>, is inside again after the velocity step and is not moved to \<open>-r\<close>.
\<close>

theorem drawCircle_no_wrap_when_drifting_back:
  "800 + c_r edgeCircle < c_x edgeCircle
   \<and> c_x (fst (drawCircle 800 600 edgeCircle 0)) = 819.98
   \<and> c_x (fst (drawCircle 800 600 edgeCircle 0)) \<noteq> - c_r edgeCircle
   \<and> \<not> c_x (fst (drawCircle 800 600 edgeCircle 0)) \<le> 0"
  by (simp add: drawCircle_x edgeCircle_def)

text \<open>
  C2 (amended). After \<^verbatim>\<open>destroy()\<close>, and as long as neither \<^verbatim>\<open>resume()\<close> nor
  \<^verbatim>\<open>toggle()\<close> is called on the API object, whatever else happens (frame callbacks,
  resizes, clicks, \<^verbatim>\<open>pause()\<close>, \<^verbatim>\<open>destroy()\<close>) changes no shape, stroke or group and
  not the clock, and makes no context call.
\<close>

theorem destroyed_frames_are_idle:
  assumes "\<forall>e \<in> set evs. \<not> restarts e"
  shows "snd (run evs (destroy st)) = []
       \<and> shapes (fst (run evs (destroy st))) = shapes st
       \<and> strokes (fst (run evs (destroy st))) = strokes st
       \<and> groups (fst (run evs (destroy st))) = groups st
       \<and> time (fst (run evs (destroy st))) = time st"
  using run_destroyed [OF destroyed_destroy assms, of st]
  by (simp add: destroy_def Let_def)

theorem destroyed_frames_are_idle_witness:
  "filter restarts sampleEvents = []
   \<and> snd (run sampleEvents (destroy sampleState)) = []
   \<and> shapes (fst (run sampleEvents (destroy sampleState))) = shapes sampleState
   \<and> strokes (fst (run sampleEvents (destroy sampleState))) = strokes sampleState
   \<and> groups (fst (run sampleEvents (destroy sampleState))) = groups sampleState
   \<and> time (fst (run sampleEvents (destroy sampleState))) = time sampleState"
proof -
  have h: "\<forall>e \<in> set sampleEvents. \<not> restarts e"
    by (simp add: sampleEvents_def)
  have f: "filter restarts sampleEvents = []"
    by (simp add: sampleEvents_def)
  show ?thesis
    using f destroyed_frames_are_idle [OF h, of sampleState] by simp
qed

text \<open>
  C2 as stated fails: \<^verbatim>\<open>destroy()\<close> does not cancel the pending request, and the
  callback that then runs requests itself again, so a callback is armed after
  \<^verbatim>\<open>destroy()\<close> and after every later tick.
\<close>

theorem destroy_leaves_callback_armed:
  "rafPending (destroy sampleState) = 1
   \<and> rafPending (fst (step (Raf 16) (destroy sampleState))) = 1
   \<and> rafPending (fst (run [Raf 16, Raf 32, Raf 48] (destroy sampleState))) = 1
   \<and> lastNow (fst (run [Raf 16, Raf 32, Raf 48] (destroy sampleState))) = 48"
  by (simp add: sampleState_def destroy_def frame_def requestAnimationFrame_def Let_def)

text \<open>
  C3. With \<^verbatim>\<open>Math.random()\<close> in \<open>[0, 1)\<close>, the stroke made by \<^verbatim>\<open>makeStroke\<close> has
  \<open>segs + 1\<close> points, where \<open>segs\<close> is the floor of the fourth random draw scaled to
  \<open>[3, 8)\<close>; \<open>segs\<close> lies in \<open>[3, 8]\<close> and the number of points in \<open>[4, 9]\<close>. No event
  changes a stroke, so the point arrays keep their lengths.
\<close>

theorem stroke_point_count:
  assumes "random_ok rnd"
  shows "int (length (s_points (fst (makeStroke rnd w h n))))
           = \<lfloor>fst (rand rnd 3 8 (n + 3))\<rfloor> + 1
       \<and> 3 \<le> \<lfloor>fst (rand rnd 3 8 (n + 3))\<rfloor>
       \<and> \<lfloor>fst (rand rnd 3 8 (n + 3))\<rfloor> \<le> 8
       \<and> 4 \<le> length (s_points (fst (makeStroke rnd w h n)))
       \<and> length (s_points (fst (makeStroke rnd w h n))) \<le> 9
       \<and> strokes (fst (run evs st)) = strokes st
       \<and> map (\<lambda>s. length (s_points s)) (strokes (fst (run evs st)))
           = map (\<lambda>s. length (s_points s)) (strokes st)"
proof -
  define k where "k = \<lfloor>3 + rnd (n + 3) * (8 - 3)\<rfloor>"
  have u: "0 \<le> rnd (n + 3)" "rnd (n + 3) < 1"
    using assms by (simp_all add: random_ok_def)
  have r: "3 \<le> k \<and> k \<le> 7"
    unfolding k_def using u by (rule segs_range)
  have l: "length (s_points (fst (makeStroke rnd w h n))) = nat (k + 1)"
    unfolding k_def by (simp only: makeStroke_points wavyLoop_length)
  have f: "\<lfloor>fst (rand rnd 3 8 (n + 3))\<rfloor> = k"
    unfolding k_def by (simp add: rand_def)
  have c: "4 \<le> nat (k + 1) \<and> nat (k + 1) \<le> 9"
    using r by arith
  show ?thesis
    unfolding f l using r c by (simp add: run_strokes)
qed

theorem stroke_point_count_witness:
  "random_ok halves
   \<and> length (s_points (fst (makeStroke halves 800 600 0))) = 6
   \<and> strokes (fst (run sampleEvents sampleState)) = strokes sampleState"
proof -
  have h: "random_ok halves"
    by (simp add: random_ok_def halves_def)
  show ?thesis
    using h stroke_point_count [OF h, of 800 600 0 sampleEvents sampleState]
    by (simp add: rand_def halves_def)
qed

text \<open>
  C4. A triangle record has no \<^verbatim>\<open>phase\<close>: the argument of the sine in the frame loop is
  \<^verbatim>\<open>(time * 0.18 + undefined) || 0\<close>, that is \<open>0\<close>, and the increment of \<open>x\<close> is \<open>0\<close>.
  The loop body gives back a triangle at the same position, and a frame, and any run
  of events, leaves the positions of the triangles as they were (the array may be
  reordered by the sort). Stated for a surface as \<^verbatim>\<open>resize()\<close> leaves it, with a
  height of at least 200.
\<close>

theorem triangle_position_fixed:
  assumes "200 \<le> height st"
  shows "sin (js_or (js_plus (Num (tm * 0.18)) (shape_phase (Triangle tr))) 0) * 0.01
           * (1 + ((t_y tr / height st) - 0.5) * 0.08) = 0
       \<and> trianglePos [fst (shapeStep (width st) (height st) tm (Triangle tr))]
           = [(t_x tr, t_y tr)]
       \<and> mset (trianglePos (shapes (fst (frame now st)))) = mset (trianglePos (shapes st))
       \<and> mset (trianglePos (shapes (fst (run evs st)))) = mset (trianglePos (shapes st))"
  using shapeStep_Triangle [of "width st" "height st" tm tr]
  by (auto simp: frame_trianglePos run_trianglePos)

theorem triangle_position_fixed_witness:
  "200 \<le> height sampleState
   \<and> trianglePos [fst (shapeStep 800 600 (2 / 125) (Triangle sampleTriangle))] = [(100, 50)]
   \<and> mset (trianglePos (shapes (fst (run sampleEvents sampleState)))) = {#(100, 50)#}"
  using triangle_position_fixed [of sampleState "2 / 125" sampleTriangle 16 sampleEvents]
  by (simp add: sampleState_def sampleTriangle_def)

text \<open>
  C5. \<^verbatim>\<open>hexToRgba("#FFFFFF", 1)\<close> is the colour with channels 255, 255, 255 and alpha
  1; \<^verbatim>\<open>hexToRgba("#000", 0.5)\<close> has channels 0, 0, 0 and alpha 0.5; and a token of three
  characters after the marker gives the same colour as the token with each character
  doubled.
\<close>

theorem hexToRgba_examples:
  "hexToRgba ''#FFFFFF'' 1 = Rgba (Some 255) (Some 255) (Some 255) 1
   \<and> hexToRgba ''#000'' 0.5 = Rgba (Some 0) (Some 0) (Some 0) 0.5
   \<and> hexToRgba [CHR ''#'', a, b, c] alpha = hexToRgba [CHR ''#'', a, a, b, b, c, c] alpha
   \<and> hexToRgba [CHR ''#'', a, b, c] alpha
       = Rgba (parseInt16 [a, a]) (parseInt16 [b, b]) (parseInt16 [c, c]) alpha"
  by (simp add: hexToRgba_def parseInt16_def isWhiteSpace_def isHexDigit_def hexDigit_def
      hexValue_def)

theorem hexToRgba_examples_witness:
  "hexToRgba ''#F0a'' 0.6 = Rgba (Some 255) (Some 0) (Some 170) 0.6
   \<and> hexToRgba ''#FF00aa'' 0.6 = Rgba (Some 255) (Some 0) (Some 170) 0.6"
  using hexToRgba_examples [of "CHR ''F''" "CHR ''0''" "CHR ''a''" "0.6"]
  by (auto simp: parseInt16_def isWhiteSpace_def isHexDigit_def hexDigit_def hexValue_def)

text \<open>
  C6. Let \<open>T\<close> be the clock after the tick and \<open>S\<close> the hatch step. A frame that runs
  (the sketch is running and every stroke has a first point) makes exactly these
  context calls, in this order: the clear; the background wash; the diagonal hatch,
  one line for each \<open>k\<close> below \<open>\<lceil>(width + height) / S\<rceil>\<close>; the ring; for every group in
  array order, the calls of \<^verbatim>\<open>drawGroup\<close>; for every stroke in array order, the calls of
  \<^verbatim>\<open>drawStroke\<close>; for every shape, in the order of the array sorted by \<open>y\<close> in this very
  frame (the key is \<open>y\<close> as it is when the sort runs), the calls of the loop body; the
  accent motif; the signature mark. The sorted array is ascending in \<open>y\<close> and a
  permutation of the stored one, and is what the frame stores back, moved. The calls
  of \<^verbatim>\<open>drawGroup\<close>, of a group child, of \<^verbatim>\<open>drawStroke\<close> and of the loop body for a circle,
  a triangle and a rect are written out in the remaining parts of the statement, and so
  are the faded colours that \<^verbatim>\<open>hexToRgba\<close> gives for the palette.
\<close>

theorem frame_draw_order:
  assumes "running st" and "\<forall>s \<in> set (strokes st). s_points s \<noteq> []"
    and "T = time st + min 40 (now - lastNow st) * 0.001"
    and "S = max 20 (min 60 (of_int \<lfloor>(width st + height st) / 60\<rfloor>))"
  shows "fst (snd (frame now st)) =
           [ClearRect 0 0 (width st) (height st)]
           @ [FillStyle (LinearGradient 0 0 (width st) (height st)
                           [(0, Hex ''#FFF9F2''), (1, Hex ''#F0F7FF'')]),
              FillRect 0 0 (width st) (height st)]
           @ [Save, GlobalAlpha 0.04, StrokeStyle (Hex ''#000''), LineWidth 1]
           @ concat (map (\<lambda>k. [BeginPath,
                                 MoveTo (- height st + real k * S) 0,
                                 LineTo (- height st + real k * S + height st) (height st),
                                 Stroke])
                         [0 ..< nat \<lceil>(width st - (- height st)) / S\<rceil>])
           @ [Restore]
           @ [Save, GlobalAlpha 0.12, Translate (width st * 0.5) (height st * 0.45),
              Rotate (sin (T * 0.1) * 0.4), BeginPath,
              Arc 0 0 (min (width st) (height st) * 0.28) 0 TAU,
              LineWidth (min (width st) (height st) * 0.1),
              StrokeStyle (Hex ''#FFC857''), Stroke, Restore]
           @ concat (map (\<lambda>g. snd (drawGroup g T)) (groups st))
           @ concat (map (\<lambda>s. fst (drawStroke s T)) (strokes st))
           @ concat (map (\<lambda>s. snd (shapeStep (width st) (height st) T s))
                         (sort_key shape_y (shapes st)))
           @ [Save, GlobalAlpha 0.95, Translate (width st * 0.85) (height st * 0.18),
              Rotate (sin (T * 0.6) * 0.6), BeginPath, FillStyle (Color (Hex ''#000'')),
              Arc 0 0 22 0 TAU, Fill, BeginPath, FillStyle (Color (Hex ''#fff'')),
              Arc (- 6) (- 6) 6 0 TAU, Fill, Restore]
           @ [Save, Translate (width st * 0.06) (height st * 0.92),
              Rotate (- 0.12 + sin (T * 0.4) * 0.02), GlobalAlpha 0.9,
              FillStyle (Color (Hex ''#3A7CA5'')), FillRect 0 0 10 36, BeginPath,
              MoveTo 8 18, LineTo 34 0, LineTo 34 6, LineTo 12 22, LineTo 34 36,
              LineTo 34 42, ClosePath, Fill, Restore]
       \<and> sortShapes (shapes st) = sort_key shape_y (shapes st)
       \<and> sorted (map shape_y (sort_key shape_y (shapes st)))
       \<and> mset (sort_key shape_y (shapes st)) = mset (shapes st)
       \<and> shapes (fst (frame now st)) =
           map (\<lambda>s. fst (shapeStep (width st) (height st) T s))
               (sort_key shape_y (shapes st))
       \<and> drawGroup g tm =
           (g\<lparr>g_rotation := g_rotation g + g_speed g\<rparr>,
            [Save, Translate (g_x g) (g_y g),
             Rotate (g_rotation g + g_speed g + sin (tm * 0.2) * 0.03),
             Scale (g_scale g) (g_scale g)]
            @ concat (map (drawChild tm) (g_children g))
            @ [Restore])
       \<and> drawChild tm k =
           [Save, Translate (k_x k) (k_y k)]
           @ (case k_kind k of
                KCircle \<Rightarrow>
                  [BeginPath, FillStyle (Color (Hex (k_fill k))),
                   Arc 0 0 (k_r k * (1 + 0.08 * sin (tm * 0.9 + (k_x k + k_y k) * 0.01)))
                     0 TAU,
                   Fill]
                  @ (case k_stroke k of
                       None \<Rightarrow> []
                     | Some col \<Rightarrow>
                         if col = [] then []
                         else [LineWidth (k_strokeWidth k), StrokeStyle (Hex col), Stroke])
              | KRect \<Rightarrow>
                  [FillStyle (Color (Hex (k_fill k))),
                   FillRect (- k_w k / 2) (- k_h k / 2) (k_w k) (k_h k)]
                  @ (case k_stroke k of
                       None \<Rightarrow> []
                     | Some col \<Rightarrow>
                         if col = [] then []
                         else [LineWidth (k_strokeWidth k), StrokeStyle (Hex col),
                               StrokeRect (- k_w k / 2) (- k_h k / 2) (k_w k) (k_h k)])
              | KTriangle \<Rightarrow>
                  [BeginPath, MoveTo 0 (- k_r k), LineTo (k_r k) (k_r k),
                   LineTo (- k_r k) (k_r k), ClosePath,
                   FillStyle (Color (Hex (k_fill k))), Fill]
                  @ (case k_stroke k of
                       None \<Rightarrow> []
                     | Some col \<Rightarrow>
                         if col = [] then []
                         else [LineWidth (k_strokeWidth k), StrokeStyle (Hex col), Stroke]))
           @ [Restore]
       \<and> drawStroke s tm =
           (case s_points s of
              [] \<Rightarrow> ([Save, LineJoin ''round'', LineCap ''round'', BeginPath], Some TypeError)
            | p0 # rest \<Rightarrow>
                ([Save, LineJoin ''round'', LineCap ''round'', BeginPath,
                  MoveTo (p_x p0 + sin (tm * s_drift s + s_phase s) * 6)
                         (p_y p0 + cos (tm * s_drift s + s_phase s) * 6)]
                 @ map (\<lambda>p. QuadraticCurveTo
                                (p_x p - 10 + sin (tm * s_drift s + s_phase s) * 6)
                                (p_y p - 10 + cos (tm * s_drift s + s_phase s) * 6)
                                (p_x p + sin (tm * s_drift s + s_phase s) * 6)
                                (p_y p + cos (tm * s_drift s + s_phase s) * 6)) rest
                 @ [StrokeStyle (Hex (s_color s)), LineWidth (s_width s), GlobalAlpha 0.9,
                    Stroke, Restore],
                 None))
       \<and> shapeStep w h tm (Circle c) =
           (let par = 1 + ((c_y c / h) - 0.5) * 0.08;
                x1 = c_x c + sin (tm * 0.2 + (c_x c + c_y c) * 0.001) * 0.02 * par;
                y1 = c_y c + cos (tm * 0.14 + (x1 - c_y c) * 0.001) * 0.02 * par;
                x2 = x1 + c_vx c;
                y2 = y1 + c_vy c;
                x3 = (if x2 < - c_r c then w + c_r c else x2);
                x4 = (if x3 > w + c_r c then - c_r c else x3);
                y3 = (if y2 < - c_r c then h + c_r c else y2);
                y4 = (if y3 > h + c_r c then - c_r c else y3);
                rad = c_r c * (1 + 0.06 * sin (tm * 0.9 + c_phase c));
                wobble = sin (c_phase c + tm * c_wobble c) * 0.08
            in (Circle (c\<lparr>c_x := x4, c_y := y4\<rparr>),
                [Save, Translate x4 y4, GlobalCompositeOperation ''lighter'',
                 FillStyle (RadialGradient 0 0 (rad * 0.1) 0 0 (rad * 1.1)
                              [(0, Hex (c_fill c)), (1, hexToRgba (c_fill c) 0.05)]),
                 BeginPath, Arc 0 0 rad 0 TAU, Fill,
                 GlobalCompositeOperation ''source-over'', BeginPath,
                 FillStyle (Color (Hex (c_fill c))),
                 Arc 0 0 (rad * 0.6 * (1 + wobble * 0.6)) 0 TAU, Fill]
                @ (if c_strokeWidth c > 0
                   then [LineWidth (c_strokeWidth c),
                         StrokeStyle (hexToRgba ''#000000'' 0.12), Stroke]
                   else [])
                @ [Restore]))
       \<and> shapeStep w h tm (Triangle tr) =
           (Triangle (tr\<lparr>t_rotation := t_rotation tr + t_rotationSpeed tr\<rparr>),
            [Save, Translate (t_x tr) (t_y tr),
             Rotate (t_rotation tr + t_rotationSpeed tr),
             BeginPath,
             MoveTo 0 (- t_size tr * 0.6),
             LineTo (t_size tr * 0.6 + t_skew tr * t_size tr) (t_size tr * 0.4),
             LineTo (- t_size tr * 0.6 + t_skew tr * t_size tr) (t_size tr * 0.4),
             ClosePath,
             FillStyle (LinearGradient (- t_size tr) (- t_size tr) (t_size tr) (t_size tr)
                          [(0, Hex (t_fill tr)), (1, hexToRgba (t_fill tr) 0.6)]),
             Fill]
            @ (case t_stroke tr of
                 None \<Rightarrow> []
               | Some col \<Rightarrow>
                   if col = [] then []
                   else [LineWidth (t_strokeWidth tr), StrokeStyle (Hex col), Stroke])
            @ [Restore])
       \<and> shapeStep w h tm (Rect re) =
           (Rect (re\<lparr>r_rotation := r_rotation re + r_rotationSpeed re\<rparr>),
            [Save, Translate (r_x re) (r_y re),
             Rotate (r_rotation re + r_rotationSpeed re),
             BeginPath,
             RectPath (- r_w re / 2) (- r_h re / 2) (r_w re) (r_h re),
             FillStyle (LinearGradient (- r_w re / 2) (- r_h re / 2) (r_w re / 2)
                          (r_h re / 2)
                          [(0, Hex (r_fill re)), (1, hexToRgba (r_fill re) 0.6)]),
             Fill]
            @ (case r_stroke re of
                 None \<Rightarrow> []
               | Some col \<Rightarrow>
                   if col = [] then []
                   else [LineWidth (r_strokeWidth re), StrokeStyle (Hex col), Stroke])
            @ [Restore])
       \<and> TAU = pi * 2
       \<and> map (\<lambda>col. hexToRgba col a)
             [''#F23B5A'', ''#FFC857'', ''#8BD3DD'', ''#3A7CA5'',
              ''#6F2DA8'', ''#FFFFFF'', ''#000000'', ''#FF7AB6'']
           = [Rgba (Some 242) (Some 59) (Some 90) a, Rgba (Some 255) (Some 200) (Some 87) a,
              Rgba (Some 139) (Some 211) (Some 221) a, Rgba (Some 58) (Some 124) (Some 165) a,
              Rgba (Some 111) (Some 45) (Some 168) a, Rgba (Some 255) (Some 255) (Some 255) a,
              Rgba (Some 0) (Some 0) (Some 0) a, Rgba (Some 255) (Some 122) (Some 182) a]"
proof -
  have ok: "strokes_ok st"
    using assms(2) by (simp add: strokes_ok_def)
  note fr = frame_running_calls [OF assms(1) ok assms(3,4)]
  have a: "fst (snd (frame now st)) =
             [ClearRect 0 0 (width st) (height st)]
             @ [FillStyle (LinearGradient 0 0 (width st) (height st)
                             [(0, Hex ''#FFF9F2''), (1, Hex ''#F0F7FF'')]),
                FillRect 0 0 (width st) (height st)]
             @ [Save, GlobalAlpha 0.04, StrokeStyle (Hex ''#000''), LineWidth 1]
             @ concat (map (\<lambda>k. [BeginPath,
                                   MoveTo (- height st + real k * S) 0,
                                   LineTo (- height st + real k * S + height st) (height st),
                                   Stroke])
                           [0 ..< nat \<lceil>(width st - (- height st)) / S\<rceil>])
             @ [Restore]
             @ [Save, GlobalAlpha 0.12, Translate (width st * 0.5) (height st * 0.45),
                Rotate (sin (T * 0.1) * 0.4), BeginPath,
                Arc 0 0 (min (width st) (height st) * 0.28) 0 TAU,
                LineWidth (min (width st) (height st) * 0.1),
                StrokeStyle (Hex ''#FFC857''), Stroke, Restore]
             @ concat (map (\<lambda>g. snd (drawGroup g T)) (groups st))
             @ concat (map (\<lambda>s. fst (drawStroke s T)) (strokes st))
             @ concat (map (\<lambda>s. snd (shapeStep (width st) (height st) T s))
                           (sort_key shape_y (shapes st)))
             @ [Save, GlobalAlpha 0.95, Translate (width st * 0.85) (height st * 0.18),
                Rotate (sin (T * 0.6) * 0.6), BeginPath, FillStyle (Color (Hex ''#000'')),
                Arc 0 0 22 0 TAU, Fill, BeginPath, FillStyle (Color (Hex ''#fff'')),
                Arc (- 6) (- 6) 6 0 TAU, Fill, Restore]
             @ [Save, Translate (width st * 0.06) (height st * 0.92),
                Rotate (- 0.12 + sin (T * 0.4) * 0.02), GlobalAlpha 0.9,
                FillStyle (Color (Hex ''#3A7CA5'')), FillRect 0 0 10 36, BeginPath,
                MoveTo 8 18, LineTo 34 0, LineTo 34 6, LineTo 12 22, LineTo 34 36,
                LineTo 34 42, ClosePath, Fill, Restore]"
    by (simp only: fr fst_conv snd_conv)
  have b: "sortShapes (shapes st) = sort_key shape_y (shapes st)"
    by (rule sortShapes_key)
  have c: "sorted (map shape_y (sort_key shape_y (shapes st)))"
    by (rule sorted_sort_key)
  have d: "mset (sort_key shape_y (shapes st)) = mset (shapes st)"
    by (rule mset_sort)
  have e: "shapes (fst (frame now st)) =
           map (\<lambda>s. fst (shapeStep (width st) (height st) T s))
               (sort_key shape_y (shapes st))"
    by (simp add: fr)
  show ?thesis
    by (intro conjI a b c d e TAU_def hexToRgba_palette
        drawGroup_calls drawChild_calls drawStroke_calls
        shapeStep_Circle_calls shapeStep_Triangle_calls shapeStep_Rect_calls)
qed

theorem frame_draw_order_witness:
  "running sampleState \<and> strokes sampleState = [sampleStroke] \<and> s_points sampleStroke \<noteq> []
   \<and> shapes sampleState = [Triangle sampleTriangle, Rect sampleRect]
   \<and> fst (snd (frame 16 sampleState)) = sampleTrace
   \<and> shapes (fst (frame 16 sampleState))
       = [Rect sampleRect, Triangle (sampleTriangle\<lparr>t_rotation := 1 / 100\<rparr>)]"
proof -
  have h1: "running sampleState"
    by (simp add: sampleState_def)
  have h2: "\<forall>s \<in> set (strokes sampleState). s_points s \<noteq> []"
    by (simp add: sampleState_def sampleStroke_def)
  have h3: "2 / 125 = time sampleState + min 40 (16 - lastNow sampleState) * 0.001"
    by (simp add: sampleState_def)
  have h4: "(23::real) = max 20 (min 60 (of_int \<lfloor>(width sampleState + height sampleState) / 60\<rfloor>))"
    by (simp add: sampleState_def)
  have v: "running sampleState \<and> strokes sampleState = [sampleStroke]
           \<and> s_points sampleStroke \<noteq> []
           \<and> shapes sampleState = [Triangle sampleTriangle, Rect sampleRect]
           \<and> groups sampleState = [sampleGroup]
           \<and> width sampleState = 800 \<and> height sampleState = 600"
    by (simp add: sampleState_def sampleStroke_def)
  have s: "sort_key shape_y [Triangle sampleTriangle, Rect sampleRect]
             = [Rect sampleRect, Triangle sampleTriangle]"
    by (simp add: sampleRect_def sampleTriangle_def)
  have ys: "t_y sampleTriangle = 50 \<and> r_y sampleRect = 40"
    by (simp add: sampleRect_def sampleTriangle_def)
  note th = frame_draw_order [OF h1 h2 h3 h4]
  note calls = th [THEN conjunct1]
  note stored = th [THEN conjunct2, THEN conjunct2, THEN conjunct2, THEN conjunct2,
      THEN conjunct1]
  have c: "fst (snd (frame 16 sampleState)) = sampleTrace"
    unfolding calls by (simp add: v s ys sampleTrace_def sample_calls TAU_def del: shapeStep.simps)
  have d: "shapes (fst (frame 16 sampleState))
       = [Rect sampleRect, Triangle (sampleTriangle\<lparr>t_rotation := 1 / 100\<rparr>)]"
    unfolding stored by (simp add: v s ys sample_calls del: shapeStep.simps)
  from v c d show ?thesis
    by simp
qed

text \<open>
  C7. Let \<open>T\<close> be the old clock plus \<open>min 40 (now - last) * 0.001\<close> and \<open>S\<close> the hatch
  step. A tick sets \<^verbatim>\<open>last\<close> to \<open>now\<close>. When the sketch is paused the tick changes
  nothing else but the request for the next tick, and makes no context call. When it
  is running the clock becomes \<open>T\<close>; if moreover every stroke has a first point, the
  tick is the full redraw: the groups are turned, the shapes sorted and moved, all the
  context calls of a frame are made (written out in the statement, with the calls of
  every routine and the faded palette colours), no exception is raised and the next tick is requested. The browser's
  tick consumes one request and makes one, so a callback stays armed. \<^verbatim>\<open>resume()\<close> sets
  \<^verbatim>\<open>running\<close> and sets \<^verbatim>\<open>last\<close> to the current time.
\<close>

theorem frame_tick:
  assumes "T = time st + min 40 (now - lastNow st) * 0.001"
    and "S = max 20 (min 60 (of_int \<lfloor>(width st + height st) / 60\<rfloor>))"
  shows "lastNow (fst (frame now st)) = now
       \<and> (\<not> running st \<longrightarrow>
            frame now st
              = (st\<lparr>lastNow := now, rafPending := Suc (rafPending st)\<rparr>, [], None))
       \<and> (running st \<longrightarrow> time (fst (frame now st)) = T)
       \<and> (running st \<and> (\<forall>s \<in> set (strokes st). s_points s \<noteq> []) \<longrightarrow>
            frame now st =
              (st\<lparr>lastNow := now, time := T,
                  groups := map (\<lambda>g. g\<lparr>g_rotation := g_rotation g + g_speed g\<rparr>)
                               (groups st),
                  shapes := map (\<lambda>s. fst (shapeStep (width st) (height st) T s))
                               (sort_key shape_y (shapes st)),
                  rafPending := Suc (rafPending st)\<rparr>,
               [ClearRect 0 0 (width st) (height st)]
               @ [FillStyle (LinearGradient 0 0 (width st) (height st)
                               [(0, Hex ''#FFF9F2''), (1, Hex ''#F0F7FF'')]),
                  FillRect 0 0 (width st) (height st)]
               @ [Save, GlobalAlpha 0.04, StrokeStyle (Hex ''#000''), LineWidth 1]
               @ concat (map (\<lambda>k. [BeginPath,
                                     MoveTo (- height st + real k * S) 0,
                                     LineTo (- height st + real k * S + height st) (height st),
                                     Stroke])
                             [0 ..< nat \<lceil>(width st - (- height st)) / S\<rceil>])
               @ [Restore]
               @ [Save, GlobalAlpha 0.12, Translate (width st * 0.5) (height st * 0.45),
                  Rotate (sin (T * 0.1) * 0.4), BeginPath,
                  Arc 0 0 (min (width st) (height st) * 0.28) 0 TAU,
                  LineWidth (min (width st) (height st) * 0.1),
                  StrokeStyle (Hex ''#FFC857''), Stroke, Restore]
               @ concat (map (\<lambda>g. snd (drawGroup g T)) (groups st))
               @ concat (map (\<lambda>s. fst (drawStroke s T)) (strokes st))
               @ concat (map (\<lambda>s. snd (shapeStep (width st) (height st) T s))
                             (sort_key shape_y (shapes st)))
               @ [Save, GlobalAlpha 0.95, Translate (width st * 0.85) (height st * 0.18),
                  Rotate (sin (T * 0.6) * 0.6), BeginPath, FillStyle (Color (Hex ''#000'')),
                  Arc 0 0 22 0 TAU, Fill, BeginPath, FillStyle (Color (Hex ''#fff'')),
                  Arc (- 6) (- 6) 6 0 TAU, Fill, Restore]
               @ [Save, Translate (width st * 0.06) (height st * 0.92),
                  Rotate (- 0.12 + sin (T * 0.4) * 0.02), GlobalAlpha 0.9,
                  FillStyle (Color (Hex ''#3A7CA5'')), FillRect 0 0 10 36, BeginPath,
                  MoveTo 8 18, LineTo 34 0, LineTo 34 6, LineTo 12 22, LineTo 34 36,
                  LineTo 34 42, ClosePath, Fill, Restore],
               None))
       \<and> (0 < rafPending st \<and> (\<not> running st \<or> (\<forall>s \<in> set (strokes st). s_points s \<noteq> [])) \<longrightarrow>
            rafPending (fst (step (Raf now) st)) = rafPending st)
       \<and> (0 < rafPending st \<longrightarrow>
            step (Raf now) st = frame now (st\<lparr>rafPending := rafPending st - 1\<rparr>))
       \<and> (rafPending st = 0 \<longrightarrow> step (Raf now) st = (st, [], None))
       \<and> resume now' st = st\<lparr>running := True, lastNow := now'\<rparr>
       \<and> drawGroup g tm =
           (g\<lparr>g_rotation := g_rotation g + g_speed g\<rparr>,
            [Save, Translate (g_x g) (g_y g),
             Rotate (g_rotation g + g_speed g + sin (tm * 0.2) * 0.03),
             Scale (g_scale g) (g_scale g)]
            @ concat (map (drawChild tm) (g_children g))
            @ [Restore])
       \<and> drawChild tm k =
           [Save, Translate (k_x k) (k_y k)]
           @ (case k_kind k of
                KCircle \<Rightarrow>
                  [BeginPath, FillStyle (Color (Hex (k_fill k))),
                   Arc 0 0 (k_r k * (1 + 0.08 * sin (tm * 0.9 + (k_x k + k_y k) * 0.01)))
                     0 TAU,
                   Fill]
                  @ (case k_stroke k of
                       None \<Rightarrow> []
                     | Some col \<Rightarrow>
                         if col = [] then []
                         else [LineWidth (k_strokeWidth k), StrokeStyle (Hex col), Stroke])
              | KRect \<Rightarrow>
                  [FillStyle (Color (Hex (k_fill k))),
                   FillRect (- k_w k / 2) (- k_h k / 2) (k_w k) (k_h k)]
                  @ (case k_stroke k of
                       None \<Rightarrow> []
                     | Some col \<Rightarrow>
                         if col = [] then []
                         else [LineWidth (k_strokeWidth k), StrokeStyle (Hex col),
                               StrokeRect (- k_w k / 2) (- k_h k / 2) (k_w k) (k_h k)])
              | KTriangle \<Rightarrow>
                  [BeginPath, MoveTo 0 (- k_r k), LineTo (k_r k) (k_r k),
                   LineTo (- k_r k) (k_r k), ClosePath,
                   FillStyle (Color (Hex (k_fill k))), Fill]
                  @ (case k_stroke k of
                       None \<Rightarrow> []
                     | Some col \<Rightarrow>
                         if col = [] then []
                         else [LineWidth (k_strokeWidth k), StrokeStyle (Hex col), Stroke]))
           @ [Restore]
       \<and> drawStroke s tm =
           (case s_points s of
              [] \<Rightarrow> ([Save, LineJoin ''round'', LineCap ''round'', BeginPath], Some TypeError)
            | p0 # rest \<Rightarrow>
                ([Save, LineJoin ''round'', LineCap ''round'', BeginPath,
                  MoveTo (p_x p0 + sin (tm * s_drift s + s_phase s) * 6)
                         (p_y p0 + cos (tm * s_drift s + s_phase s) * 6)]
                 @ map (\<lambda>p. QuadraticCurveTo
                                (p_x p - 10 + sin (tm * s_drift s + s_phase s) * 6)
                                (p_y p - 10 + cos (tm * s_drift s + s_phase s) * 6)
                                (p_x p + sin (tm * s_drift s + s_phase s) * 6)
                                (p_y p + cos (tm * s_drift s + s_phase s) * 6)) rest
                 @ [StrokeStyle (Hex (s_color s)), LineWidth (s_width s), GlobalAlpha 0.9,
                    Stroke, Restore],
                 None))
       \<and> shapeStep w h tm (Circle c) =
           (let par = 1 + ((c_y c / h) - 0.5) * 0.08;
                x1 = c_x c + sin (tm * 0.2 + (c_x c + c_y c) * 0.001) * 0.02 * par;
                y1 = c_y c + cos (tm * 0.14 + (x1 - c_y c) * 0.001) * 0.02 * par;
                x2 = x1 + c_vx c;
                y2 = y1 + c_vy c;
                x3 = (if x2 < - c_r c then w + c_r c else x2);
                x4 = (if x3 > w + c_r c then - c_r c else x3);
                y3 = (if y2 < - c_r c then h + c_r c else y2);
                y4 = (if y3 > h + c_r c then - c_r c else y3);
                rad = c_r c * (1 + 0.06 * sin (tm * 0.9 + c_phase c));
                wobble = sin (c_phase c + tm * c_wobble c) * 0.08
            in (Circle (c\<lparr>c_x := x4, c_y := y4\<rparr>),
                [Save, Translate x4 y4, GlobalCompositeOperation ''lighter'',
                 FillStyle (RadialGradient 0 0 (rad * 0.1) 0 0 (rad * 1.1)
                              [(0, Hex (c_fill c)), (1, hexToRgba (c_fill c) 0.05)]),
                 BeginPath, Arc 0 0 rad 0 TAU, Fill,
                 GlobalCompositeOperation ''source-over'', BeginPath,
                 FillStyle (Color (Hex (c_fill c))),
                 Arc 0 0 (rad * 0.6 * (1 + wobble * 0.6)) 0 TAU, Fill]
                @ (if c_strokeWidth c > 0
                   then [LineWidth (c_strokeWidth c),
                         StrokeStyle (hexToRgba ''#000000'' 0.12), Stroke]
                   else [])
                @ [Restore]))
       \<and> shapeStep w h tm (Triangle tr) =
           (Triangle (tr\<lparr>t_rotation := t_rotation tr + t_rotationSpeed tr\<rparr>),
            [Save, Translate (t_x tr) (t_y tr),
             Rotate (t_rotation tr + t_rotationSpeed tr),
             BeginPath,
             MoveTo 0 (- t_size tr * 0.6),
             LineTo (t_size tr * 0.6 + t_skew tr * t_size tr) (t_size tr * 0.4),
             LineTo (- t_size tr * 0.6 + t_skew tr * t_size tr) (t_size tr * 0.4),
             ClosePath,
             FillStyle (LinearGradient (- t_size tr) (- t_size tr) (t_size tr) (t_size tr)
                          [(0, Hex (t_fill tr)), (1, hexToRgba (t_fill tr) 0.6)]),
             Fill]
            @ (case t_stroke tr of
                 None \<Rightarrow> []
               | Some col \<Rightarrow>
                   if col = [] then []
                   else [LineWidth (t_strokeWidth tr), StrokeStyle (Hex col), Stroke])
            @ [Restore])
       \<and> shapeStep w h tm (Rect re) =
           (Rect (re\<lparr>r_rotation := r_rotation re + r_rotationSpeed re\<rparr>),
            [Save, Translate (r_x re) (r_y re),
             Rotate (r_rotation re + r_rotationSpeed re),
             BeginPath,
             RectPath (- r_w re / 2) (- r_h re / 2) (r_w re) (r_h re),
             FillStyle (LinearGradient (- r_w re / 2) (- r_h re / 2) (r_w re / 2)
                          (r_h re / 2)
                          [(0, Hex (r_fill re)), (1, hexToRgba (r_fill re) 0.6)]),
             Fill]
            @ (case r_stroke re of
                 None \<Rightarrow> []
               | Some col \<Rightarrow>
                   if col = [] then []
                   else [LineWidth (r_strokeWidth re), StrokeStyle (Hex col), Stroke])
            @ [Restore])
       \<and> TAU = pi * 2
       \<and> map (\<lambda>col. hexToRgba col a)
             [''#F23B5A'', ''#FFC857'', ''#8BD3DD'', ''#3A7CA5'',
              ''#6F2DA8'', ''#FFFFFF'', ''#000000'', ''#FF7AB6'']
           = [Rgba (Some 242) (Some 59) (Some 90) a, Rgba (Some 255) (Some 200) (Some 87) a,
              Rgba (Some 139) (Some 211) (Some 221) a, Rgba (Some 58) (Some 124) (Some 165) a,
              Rgba (Some 111) (Some 45) (Some 168) a, Rgba (Some 255) (Some 255) (Some 255) a,
              Rgba (Some 0) (Some 0) (Some 0) a, Rgba (Some 255) (Some 122) (Some 182) a]"
proof -
  have a: "lastNow (fst (frame now st)) = now"
    by (rule frame_lastNow)
  have b: "\<not> running st \<longrightarrow>
            frame now st
              = (st\<lparr>lastNow := now, rafPending := Suc (rafPending st)\<rparr>, [], None)"
    by (simp add: frame_paused)
  have c: "running st \<longrightarrow> time (fst (frame now st)) = T"
    by (simp add: frame_time frameTime_def assms(1))
  have g: "(\<lambda>g. fst (drawGroup g T)) = (\<lambda>g. g\<lparr>g_rotation := g_rotation g + g_speed g\<rparr>)"
    by (rule ext) (simp add: drawGroup_calls)
  have d: "running st \<and> (\<forall>s \<in> set (strokes st). s_points s \<noteq> []) \<longrightarrow>
            frame now st =
              (st\<lparr>lastNow := now, time := T,
                  groups := map (\<lambda>g. g\<lparr>g_rotation := g_rotation g + g_speed g\<rparr>)
                               (groups st),
                  shapes := map (\<lambda>s. fst (shapeStep (width st) (height st) T s))
                               (sort_key shape_y (shapes st)),
                  rafPending := Suc (rafPending st)\<rparr>,
               [ClearRect 0 0 (width st) (height st)]
               @ [FillStyle (LinearGradient 0 0 (width st) (height st)
                               [(0, Hex ''#FFF9F2''), (1, Hex ''#F0F7FF'')]),
                  FillRect 0 0 (width st) (height st)]
               @ [Save, GlobalAlpha 0.04, StrokeStyle (Hex ''#000''), LineWidth 1]
               @ concat (map (\<lambda>k. [BeginPath,
                                     MoveTo (- height st + real k * S) 0,
                                     LineTo (- height st + real k * S + height st) (height st),
                                     Stroke])
                             [0 ..< nat \<lceil>(width st - (- height st)) / S\<rceil>])
               @ [Restore]
               @ [Save, GlobalAlpha 0.12, Translate (width st * 0.5) (height st * 0.45),
                  Rotate (sin (T * 0.1) * 0.4), BeginPath,
                  Arc 0 0 (min (width st) (height st) * 0.28) 0 TAU,
                  LineWidth (min (width st) (height st) * 0.1),
                  StrokeStyle (Hex ''#FFC857''), Stroke, Restore]
               @ concat (map (\<lambda>g. snd (drawGroup g T)) (groups st))
               @ concat (map (\<lambda>s. fst (drawStroke s T)) (strokes st))
               @ concat (map (\<lambda>s. snd (shapeStep (width st) (height st) T s))
                             (sort_key shape_y (shapes st)))
               @ [Save, GlobalAlpha 0.95, Translate (width st * 0.85) (height st * 0.18),
                  Rotate (sin (T * 0.6) * 0.6), BeginPath, FillStyle (Color (Hex ''#000'')),
                  Arc 0 0 22 0 TAU, Fill, BeginPath, FillStyle (Color (Hex ''#fff'')),
                  Arc (- 6) (- 6) 6 0 TAU, Fill, Restore]
               @ [Save, Translate (width st * 0.06) (height st * 0.92),
                  Rotate (- 0.12 + sin (T * 0.4) * 0.02), GlobalAlpha 0.9,
                  FillStyle (Color (Hex ''#3A7CA5'')), FillRect 0 0 10 36, BeginPath,
                  MoveTo 8 18, LineTo 34 0, LineTo 34 6, LineTo 12 22, LineTo 34 36,
                  LineTo 34 42, ClosePath, Fill, Restore],
               None)"
  proof
    assume r0: "running st \<and> (\<forall>s \<in> set (strokes st). s_points s \<noteq> [])"
    then have r: "running st \<and> strokes_ok st"
      by (simp add: strokes_ok_def)
    show "frame now st =
              (st\<lparr>lastNow := now, time := T,
                  groups := map (\<lambda>g. g\<lparr>g_rotation := g_rotation g + g_speed g\<rparr>)
                               (groups st),
                  shapes := map (\<lambda>s. fst (shapeStep (width st) (height st) T s))
                               (sort_key shape_y (shapes st)),
                  rafPending := Suc (rafPending st)\<rparr>,
               [ClearRect 0 0 (width st) (height st)]
               @ [FillStyle (LinearGradient 0 0 (width st) (height st)
                               [(0, Hex ''#FFF9F2''), (1, Hex ''#F0F7FF'')]),
                  FillRect 0 0 (width st) (height st)]
               @ [Save, GlobalAlpha 0.04, StrokeStyle (Hex ''#000''), LineWidth 1]
               @ concat (map (\<lambda>k. [BeginPath,
                                     MoveTo (- height st + real k * S) 0,
                                     LineTo (- height st + real k * S + height st) (height st),
                                     Stroke])
                             [0 ..< nat \<lceil>(width st - (- height st)) / S\<rceil>])
               @ [Restore]
               @ [Save, GlobalAlpha 0.12, Translate (width st * 0.5) (height st * 0.45),
                  Rotate (sin (T * 0.1) * 0.4), BeginPath,
                  Arc 0 0 (min (width st) (height st) * 0.28) 0 TAU,
                  LineWidth (min (width st) (height st) * 0.1),
                  StrokeStyle (Hex ''#FFC857''), Stroke, Restore]
               @ concat (map (\<lambda>g. snd (drawGroup g T)) (groups st))
               @ concat (map (\<lambda>s. fst (drawStroke s T)) (strokes st))
               @ concat (map (\<lambda>s. snd (shapeStep (width st) (height st) T s))
                             (sort_key shape_y (shapes st)))
               @ [Save, GlobalAlpha 0.95, Translate (width st * 0.85) (height st * 0.18),
                  Rotate (sin (T * 0.6) * 0.6), BeginPath, FillStyle (Color (Hex ''#000'')),
                  Arc 0 0 22 0 TAU, Fill, BeginPath, FillStyle (Color (Hex ''#fff'')),
                  Arc (- 6) (- 6) 6 0 TAU, Fill, Restore]
               @ [Save, Translate (width st * 0.06) (height st * 0.92),
                  Rotate (- 0.12 + sin (T * 0.4) * 0.02), GlobalAlpha 0.9,
                  FillStyle (Color (Hex ''#3A7CA5'')), FillRect 0 0 10 36, BeginPath,
                  MoveTo 8 18, LineTo 34 0, LineTo 34 6, LineTo 12 22, LineTo 34 36,
                  LineTo 34 42, ClosePath, Fill, Restore],
               None)"
      using frame_running_calls [OF conjunct1 [OF r] conjunct2 [OF r] assms]
      by (simp only: g)
  qed
  have e: "0 < rafPending st \<and> (\<not> running st \<or> (\<forall>s \<in> set (strokes st). s_points s \<noteq> [])) \<longrightarrow>
        rafPending (fst (step (Raf now) st)) = rafPending st"
  proof (cases "running st")
    case True
    show ?thesis
    proof
      assume p: "0 < rafPending st \<and> (\<not> running st \<or> (\<forall>s \<in> set (strokes st). s_points s \<noteq> []))"
      let ?st = "st\<lparr>rafPending := rafPending st - 1\<rparr>"
      have "running ?st" "strokes_ok ?st"
        using True p by (simp_all add: strokes_ok_def)
      then have "rafPending (fst (frame now ?st)) = Suc (rafPending ?st)"
        by (simp add: frame_running)
      with p show "rafPending (fst (step (Raf now) st)) = rafPending st"
        by simp
    qed
  next
    case False
    then show ?thesis
      by (simp add: frame_paused)
  qed
  have e1: "0 < rafPending st \<longrightarrow>
            step (Raf now) st = frame now (st\<lparr>rafPending := rafPending st - 1\<rparr>)"
    by simp
  have e2: "rafPending st = 0 \<longrightarrow> step (Raf now) st = (st, [], None)"
    by simp
  have f: "resume now' st = st\<lparr>running := True, lastNow := now'\<rparr>"
    by (simp add: resume_def)
  show ?thesis
    by (intro conjI a b c d e e1 e2 f TAU_def hexToRgba_palette
        drawGroup_calls drawChild_calls drawStroke_calls
        shapeStep_Circle_calls shapeStep_Triangle_calls shapeStep_Rect_calls)
qed

theorem frame_tick_witness:
  "running sampleState \<and> strokes sampleState = [sampleStroke] \<and> s_points sampleStroke \<noteq> []
   \<and> 0 < rafPending sampleState
   \<and> \<not> running (pause sampleState) \<and> 0 < rafPending (pause sampleState)
   \<and> frame 16 sampleState
       = (sampleState\<lparr>lastNow := 16, time := 2 / 125,
                       groups := [sampleGroup\<lparr>g_rotation := 1 / 1000\<rparr>],
                       shapes := [Rect sampleRect,
                                  Triangle (sampleTriangle\<lparr>t_rotation := 1 / 100\<rparr>)],
                       rafPending := 2\<rparr>,
          sampleTrace, None)
   \<and> time (fst (frame 1000 sampleState)) = 1 / 25
   \<and> rafPending (fst (step (Raf 16) sampleState)) = 1
   \<and> frame 16 (pause sampleState)
       = ((pause sampleState)\<lparr>lastNow := 16, rafPending := 2\<rparr>, [], None)
   \<and> rafPending (fst (step (Raf 16) (pause sampleState))) = 1"
proof -
  have h3: "2 / 125 = time sampleState + min 40 (16 - lastNow sampleState) * 0.001"
    by (simp add: sampleState_def)
  have h3': "1 / 25 = time sampleState + min 40 (1000 - lastNow sampleState) * 0.001"
    by (simp add: sampleState_def)
  have h3'': "2 / 125 = time (pause sampleState)
                + min 40 (16 - lastNow (pause sampleState)) * 0.001"
    by (simp add: sampleState_def pause_def)
  have h4: "(23::real) = max 20 (min 60 (of_int \<lfloor>(width sampleState + height sampleState) / 60\<rfloor>))"
    by (simp add: sampleState_def)
  have h4': "(23::real) = max 20 (min 60 (of_int \<lfloor>(width (pause sampleState)
                                              + height (pause sampleState)) / 60\<rfloor>))"
    by (simp add: sampleState_def pause_def)
  have v: "running sampleState \<and> strokes sampleState = [sampleStroke]
           \<and> s_points sampleStroke \<noteq> []
           \<and> shapes sampleState = [Triangle sampleTriangle, Rect sampleRect]
           \<and> groups sampleState = [sampleGroup]
           \<and> width sampleState = 800 \<and> height sampleState = 600
           \<and> rafPending sampleState = 1 \<and> \<not> running (pause sampleState)
           \<and> rafPending (pause sampleState) = 1"
    by (simp add: sampleState_def sampleStroke_def pause_def)
  have s: "sort_key shape_y [Triangle sampleTriangle, Rect sampleRect]
             = [Rect sampleRect, Triangle sampleTriangle]"
    by (simp add: sampleRect_def sampleTriangle_def)
  have ys: "t_y sampleTriangle = 50 \<and> r_y sampleRect = 40"
    by (simp add: sampleRect_def sampleTriangle_def)
  have g: "sampleGroup\<lparr>g_rotation := g_rotation sampleGroup + g_speed sampleGroup\<rparr>
             = sampleGroup\<lparr>g_rotation := 1 / 1000\<rparr>"
    by (simp add: sampleGroup_def)
  have ok: "running sampleState \<and> (\<forall>s \<in> set (strokes sampleState). s_points s \<noteq> [])"
    by (simp add: v)
  note th = frame_tick [OF h3 h4]
  note redraw = th [THEN conjunct2, THEN conjunct2, THEN conjunct2, THEN conjunct1,
      THEN mp, OF ok]
  note rearm = th [THEN conjunct2, THEN conjunct2, THEN conjunct2, THEN conjunct2,
      THEN conjunct1]
  note late = frame_tick [OF h3' h4, THEN conjunct2, THEN conjunct2, THEN conjunct1]
  note th' = frame_tick [OF h3'' h4']
  note paused = th' [THEN conjunct2, THEN conjunct1]
  note rearm' = th' [THEN conjunct2, THEN conjunct2, THEN conjunct2, THEN conjunct2,
      THEN conjunct1]
  have a: "frame 16 sampleState
       = (sampleState\<lparr>lastNow := 16, time := 2 / 125,
                       groups := [sampleGroup\<lparr>g_rotation := 1 / 1000\<rparr>],
                       shapes := [Rect sampleRect,
                                  Triangle (sampleTriangle\<lparr>t_rotation := 1 / 100\<rparr>)],
                       rafPending := 2\<rparr>,
          sampleTrace, None)"
    unfolding redraw
    by (simp add: v s ys g sampleTrace_def sample_calls TAU_def del: shapeStep.simps)
  have b: "time (fst (frame 1000 sampleState)) = 1 / 25"
    using late by (simp add: v)
  have c: "rafPending (fst (step (Raf 16) sampleState)) = 1"
    using rearm by (simp add: v)
  have d: "frame 16 (pause sampleState)
       = ((pause sampleState)\<lparr>lastNow := 16, rafPending := 2\<rparr>, [], None)"
    using paused by (simp add: v)
  have e: "rafPending (fst (step (Raf 16) (pause sampleState))) = 1"
    using rearm' by (simp add: v)
  from v a b c d e show ?thesis
    by simp
qed

text \<open>
  C8. \<^verbatim>\<open>pause()\<close> twice leaves the sketch paused and is the same as \<^verbatim>\<open>pause()\<close> once;
  \<^verbatim>\<open>toggle()\<close> twice gives \<^verbatim>\<open>running\<close> its first value back. Neither call, made as an
  event, raises an exception.
\<close>

theorem pause_twice_toggle_twice:
  "running (pause (pause st)) = False
   \<and> pause (pause st) = pause st
   \<and> running (toggle now2 (toggle now1 st)) = running st
   \<and> snd (snd (step ApiPause (fst (step ApiPause st)))) = None
   \<and> running (fst (step ApiPause (fst (step ApiPause st)))) = False
   \<and> snd (snd (step (ApiToggle now2) (fst (step (ApiToggle now1) st)))) = None
   \<and> running (fst (step (ApiToggle now2) (fst (step (ApiToggle now1) st)))) = running st"
  by (simp add: pause_def toggle_def)

theorem pause_twice_toggle_twice_witness:
  "running (pause (pause sampleState)) = False
   \<and> running (toggle 30 (toggle 20 sampleState)) = True
   \<and> running (toggle 30 (toggle 20 (pause sampleState))) = False"
  using pause_twice_toggle_twice [of sampleState 30 20]
        pause_twice_toggle_twice [of "pause sampleState" 30 20]
  by (simp add: sampleState_def pause_def)

text \<open>
  C9. \<^verbatim>\<open>drawGroup\<close> adds the speed to the rotation of the group and changes nothing
  else: position, scale, speed and the children are as before, and no run of events
  changes the children of any group. In what is drawn for a child, only the radius of
  a circle child depends on the time; a rect or triangle child is drawn the same at
  all times.
\<close>

theorem drawGroup_keeps_children:
  "fst (drawGroup g t) = g\<lparr>g_rotation := g_rotation g + g_speed g\<rparr>
   \<and> g_children (fst (drawGroup g t)) = g_children g
   \<and> g_x (fst (drawGroup g t)) = g_x g
   \<and> g_y (fst (drawGroup g t)) = g_y g
   \<and> g_scale (fst (drawGroup g t)) = g_scale g
   \<and> map g_children (groups (fst (frame now st))) = map g_children (groups st)
   \<and> map g_children (groups (fst (run evs st))) = map g_children (groups st)
   \<and> (k_kind c \<noteq> KCircle \<longrightarrow> drawChild t c = drawChild t' c)
   \<and> (k_kind c = KCircle \<longrightarrow>
        drawChild t c =
          [Save, Translate (k_x c) (k_y c), BeginPath, FillStyle (Color (Hex (k_fill c))),
           Arc 0 0 (k_r c * (1 + 0.08 * sin (t * 0.9 + (k_x c + k_y c) * 0.01))) 0 TAU,
           Fill]
          @ outline (k_stroke c) (k_strokeWidth c) Stroke @ [Restore])"
proof -
  have a: "fst (drawGroup g t) = g\<lparr>g_rotation := g_rotation g + g_speed g\<rparr>"
    by (simp add: drawGroup_def Let_def)
  have b: "k_kind c \<noteq> KCircle \<longrightarrow> drawChild t c = drawChild t' c"
    by (cases "k_kind c") (simp_all add: drawChild_def)
  have d: "k_kind c = KCircle \<longrightarrow>
        drawChild t c =
          [Save, Translate (k_x c) (k_y c), BeginPath, FillStyle (Color (Hex (k_fill c))),
           Arc 0 0 (k_r c * (1 + 0.08 * sin (t * 0.9 + (k_x c + k_y c) * 0.01))) 0 TAU,
           Fill]
          @ outline (k_stroke c) (k_strokeWidth c) Stroke @ [Restore]"
    by (simp add: drawChild_def Let_def)
  show ?thesis
    by (simp add: a b d frame_children run_children)
qed

theorem drawGroup_keeps_children_witness:
  "k_kind sampleChild \<noteq> KCircle
   \<and> k_kind (sampleChild\<lparr>k_kind := KCircle\<rparr>) = KCircle
   \<and> g_children (fst (drawGroup sampleGroup 1)) = g_children sampleGroup
   \<and> g_rotation (fst (drawGroup sampleGroup 1)) = 1 / 1000
   \<and> map g_children (groups (fst (run sampleEvents sampleState))) = [g_children sampleGroup]
   \<and> drawChild 1 sampleChild = drawChild 2 sampleChild
   \<and> drawChild 0 (sampleChild\<lparr>k_kind := KCircle\<rparr>) =
        [Save, Translate 30 0, BeginPath, FillStyle (Color (Hex ''#8BD3DD'')),
         Arc 0 0 (8 * (1 + 0.08 * sin (3 / 10))) 0 TAU, Fill,
         LineWidth 1, StrokeStyle (Hex ''#000''), Stroke, Restore]"
  using drawGroup_keeps_children [of sampleGroup 1 16 sampleState sampleEvents sampleChild 2]
        drawGroup_keeps_children
          [of sampleGroup 0 16 sampleState sampleEvents "sampleChild\<lparr>k_kind := KCircle\<rparr>" 2]
  by (simp add: sampleChild_def sampleGroup_def sampleState_def outline_def)

text \<open>
  C10. The radius of the glow arc that \<^verbatim>\<open>drawCircle\<close> draws, its sixth context call, is
  \<open>r * (1 + 0.06 * sin (0.9 * t + phase))\<close>. It is the same for two circle records
  with the same \<open>r\<close> and \<open>phase\<close> at the same time \<open>t\<close>, whatever their other fields and
  whatever the size of the surface.
\<close>

theorem pulsing_radius_deterministic:
  assumes "c_r s1 = c_r s2" and "c_phase s1 = c_phase s2"
  shows "snd (drawCircle w1 h1 s1 t) ! 5
           = Arc 0 0 (c_r s1 * (1 + 0.06 * sin (0.9 * t + c_phase s1))) 0 TAU
       \<and> snd (drawCircle w2 h2 s2 t) ! 5 = snd (drawCircle w1 h1 s1 t) ! 5"
  using assms by (simp add: drawCircle_def Let_def mult.commute)

theorem pulsing_radius_deterministic_witness:
  "c_r sampleCircle = c_r (sampleCircle\<lparr>c_x := 5, c_vx := 1, c_wobble := 2\<rparr>)
   \<and> c_phase sampleCircle = c_phase (sampleCircle\<lparr>c_x := 5, c_vx := 1, c_wobble := 2\<rparr>)
   \<and> snd (drawCircle 800 600 sampleCircle 0) ! 5 = Arc 0 0 20 0 TAU
   \<and> snd (drawCircle 300 200 (sampleCircle\<lparr>c_x := 5, c_vx := 1, c_wobble := 2\<rparr>) 0) ! 5
       = Arc 0 0 20 0 TAU"
  using pulsing_radius_deterministic
          [of sampleCircle "sampleCircle\<lparr>c_x := 5, c_vx := 1, c_wobble := 2\<rparr>" 800 600 0 300 200]
  by (simp add: sampleCircle_def)

end
